theory Spec2Isabelle
  imports Main "HOL-Library.Word"
begin

unbundle bit_operations_syntax

section \<open>Strings, bytes and validators\<close>

text \<open>
  JavaScript strings are modelled as \<open>string\<close>; the identifiers, tokens and passwords
  handled here are ASCII, where a character, a UTF-16 code unit and a UTF-8 byte
  coincide. A request field that may be missing (\<open>undefined\<close>) and a nullable column
  are \<open>string option\<close>.
\<close>

type_synonym byte = "8 word"

text \<open>
  \<open>shape p s\<close>: the string \<open>s\<close> matches the anchored pattern \<open>p\<close>, where \<open>x\<close> in the
  pattern stands for one hexadecimal digit of either case and every other character
  for itself. It renders the two regular expressions the routes validate with.
\<close>

definition is_hex :: "char \<Rightarrow> bool" where
  "is_hex c = (c \<in> set ''0123456789abcdefABCDEF'')"

fun shape :: "string \<Rightarrow> string \<Rightarrow> bool" where
  "shape [] [] = True"
| "shape (p # ps) (c # cs) = ((if p = CHR ''x'' then is_hex c else c = p) \<and> shape ps cs)"
| "shape _ _ = False"

text \<open>\<open>matches(/^([0-9A-Fa-f]{2}:){5}[0-9A-Fa-f]{2}$/)\<close> of the provisioning route.\<close>

definition is_mac :: "string \<Rightarrow> bool" where
  "is_mac s = shape ''xx:xx:xx:xx:xx:xx'' s"

text \<open>\<open>isUUID()\<close> of express-validator with no version: 8-4-4-4-12 hexadecimal digits.\<close>

definition isUUID :: "string \<Rightarrow> bool" where
  "isUUID s = shape ''xxxxxxxx-xxxx-xxxx-xxxx-xxxxxxxxxxxx'' s"

text \<open>The sanitizer \<open>trim()\<close>: leading and trailing white space is removed.\<close>

definition is_space :: "char \<Rightarrow> bool" where
  "is_space c = (c \<in> {CHR '' '', CHR 0x09, CHR 0x0A, CHR 0x0B, CHR 0x0C, CHR 0x0D})"

definition trim :: "string \<Rightarrow> string" where
  "trim s = rev (dropWhile is_space (rev (dropWhile is_space s)))"

section \<open>Credential generator (routes/provision.js)\<close>

text \<open>
  The template \<open>u_${device.project.user_id.replace(/-/g, '').slice(0, 8)}_d_${device.id.replace(/-/g, '').slice(0, 8)}\<close>.
\<close>

definition remove_hyphens :: "string \<Rightarrow> string" where
  "remove_hyphens s = filter (\<lambda>c. c \<noteq> CHR ''-'') s"

definition mqttUsername :: "string \<Rightarrow> string \<Rightarrow> string" where
  "mqttUsername user_id dev_id =
     ''u_'' @ take 8 (remove_hyphens user_id) @ ''_d_'' @ take 8 (remove_hyphens dev_id)"

subsection \<open>base64url\<close>

definition base64url_alphabet :: string where
  "base64url_alphabet =
     ''ABCDEFGHIJKLMNOPQRSTUVWXYZabcdefghijklmnopqrstuvwxyz0123456789-_''"

definition b64 :: "nat \<Rightarrow> char" where
  "b64 n = base64url_alphabet ! (n mod 64)"

text \<open>
  \<open>Buffer.toString('base64url')\<close>: three bytes give four characters of six bits each;
  a rest of one or two bytes gives two or three characters, and no padding is written.
\<close>

fun base64url :: "byte list \<Rightarrow> string" where
  "base64url (a # b # c # rest) =
     (let n = unat a * 65536 + unat b * 256 + unat c
      in [b64 (n div 262144), b64 (n div 4096), b64 (n div 64), b64 n]) @ base64url rest"
| "base64url [a, b] =
     (let n = unat a * 1024 + unat b * 4
      in [b64 (n div 4096), b64 (n div 64), b64 n])"
| "base64url [a] =
     (let n = unat a * 16
      in [b64 (n div 64), b64 n])"
| "base64url [] = []"

subsection \<open>SHA-256 and the hexadecimal digest\<close>

type_synonym w32 = "32 word"

text \<open>The sixty-four round constants, four to a row.\<close>

definition K :: "w32 list" where
  "K = [0x428a2f98, 0x71374491, 0xb5c0fbcf, 0xe9b5dba5]
     @ [0x3956c25b, 0x59f111f1, 0x923f82a4, 0xab1c5ed5]
     @ [0xd807aa98, 0x12835b01, 0x243185be, 0x550c7dc3]
     @ [0x72be5d74, 0x80deb1fe, 0x9bdc06a7, 0xc19bf174]
     @ [0xe49b69c1, 0xefbe4786, 0x0fc19dc6, 0x240ca1cc]
     @ [0x2de92c6f, 0x4a7484aa, 0x5cb0a9dc, 0x76f988da]
     @ [0x983e5152, 0xa831c66d, 0xb00327c8, 0xbf597fc7]
     @ [0xc6e00bf3, 0xd5a79147, 0x06ca6351, 0x14292967]
     @ [0x27b70a85, 0x2e1b2138, 0x4d2c6dfc, 0x53380d13]
     @ [0x650a7354, 0x766a0abb, 0x81c2c92e, 0x92722c85]
     @ [0xa2bfe8a1, 0xa81a664b, 0xc24b8b70, 0xc76c51a3]
     @ [0xd192e819, 0xd6990624, 0xf40e3585, 0x106aa070]
     @ [0x19a4c116, 0x1e376c08, 0x2748774c, 0x34b0bcb5]
     @ [0x391c0cb3, 0x4ed8aa4a, 0x5b9cca4f, 0x682e6ff3]
     @ [0x748f82ee, 0x78a5636f, 0x84c87814, 0x8cc70208]
     @ [0x90befffa, 0xa4506ceb, 0xbef9a3f7, 0xc67178f2]"

definition rotr :: "nat \<Rightarrow> w32 \<Rightarrow> w32" where
  "rotr n x = drop_bit n x OR push_bit (32 - n) x"

definition Ch :: "w32 \<Rightarrow> w32 \<Rightarrow> w32 \<Rightarrow> w32" where
  "Ch x y z = (x AND y) XOR (NOT x AND z)"

definition Maj :: "w32 \<Rightarrow> w32 \<Rightarrow> w32 \<Rightarrow> w32" where
  "Maj x y z = (x AND y) XOR (x AND z) XOR (y AND z)"

definition bsig0 :: "w32 \<Rightarrow> w32" where
  "bsig0 x = rotr 2 x XOR rotr 13 x XOR rotr 22 x"

definition bsig1 :: "w32 \<Rightarrow> w32" where
  "bsig1 x = rotr 6 x XOR rotr 11 x XOR rotr 25 x"

definition ssig0 :: "w32 \<Rightarrow> w32" where
  "ssig0 x = rotr 7 x XOR rotr 18 x XOR drop_bit 3 x"

definition ssig1 :: "w32 \<Rightarrow> w32" where
  "ssig1 x = rotr 17 x XOR rotr 19 x XOR drop_bit 10 x"

text \<open>The message is padded to a multiple of 64 bytes: 0x80, zeros, the bit length.\<close>

definition be64 :: "nat \<Rightarrow> byte list" where
  "be64 n = map (\<lambda>i. of_nat (n div 2 ^ (8 * (7 - i)))) [0..<8]"

definition pad :: "byte list \<Rightarrow> byte list" where
  "pad msg = msg @ [0x80] @ replicate ((119 - length msg mod 64) mod 64) 0
               @ be64 (8 * length msg)"

fun be32 :: "byte list \<Rightarrow> w32 list" where
  "be32 (a # b # c # d # rest) =
     (push_bit 24 (ucast a) OR push_bit 16 (ucast b) OR push_bit 8 (ucast c) OR ucast d)
       # be32 rest"
| "be32 _ = []"

function blocks :: "w32 list \<Rightarrow> w32 list list" where
  "blocks ws = (if length ws < 16 then [] else take 16 ws # blocks (drop 16 ws))"
  by pat_completeness auto
termination
  by (relation "measure length") auto

text \<open>The message schedule: sixteen words extended to sixty-four.\<close>

fun extend :: "nat \<Rightarrow> w32 list \<Rightarrow> w32 list" where
  "extend 0 w = w"
| "extend (Suc n) w =
     (let t = length w
      in extend n (w @ [ssig1 (w ! (t - 2)) + w ! (t - 7) + ssig0 (w ! (t - 15)) + w ! (t - 16)]))"

type_synonym hstate = "w32 \<times> w32 \<times> w32 \<times> w32 \<times> w32 \<times> w32 \<times> w32 \<times> w32"

fun sha_round :: "hstate \<Rightarrow> w32 \<times> w32 \<Rightarrow> hstate" where
  "sha_round (a, b, c, d, e, f, g, h) (k, w) =
     (let T1 = h + bsig1 e + Ch e f g + k + w;
          T2 = bsig0 a + Maj a b c
      in (T1 + T2, a, b, c, d + T1, e, f, g))"

fun add_state :: "hstate \<Rightarrow> hstate \<Rightarrow> hstate" where
  "add_state (a, b, c, d, e, f, g, h) (a', b', c', d', e', f', g', h') =
     (a + a', b + b', c + c', d + d', e + e', f + f', g + g', h + h')"

definition compress :: "hstate \<Rightarrow> w32 list \<Rightarrow> hstate" where
  "compress st block = add_state st (foldl sha_round st (zip K (extend 48 block)))"

definition H0 :: hstate where
  "H0 = (0x6a09e667, 0xbb67ae85, 0x3c6ef372, 0xa54ff53a,
         0x510e527f, 0x9b05688c, 0x1f83d9ab, 0x5be0cd19)"

definition sha256 :: "byte list \<Rightarrow> hstate" where
  "sha256 msg = foldl compress H0 (blocks (be32 (pad msg)))"

definition hex_digit :: "nat \<Rightarrow> char" where
  "hex_digit n = ''0123456789abcdef'' ! (n mod 16)"

definition hex32 :: "w32 \<Rightarrow> string" where
  "hex32 w = map (\<lambda>i. hex_digit (unat w div 16 ^ (7 - i))) [0..<8]"

fun digest_hex :: "hstate \<Rightarrow> string" where
  "digest_hex (a, b, c, d, e, f, g, h) = concat (map hex32 [a, b, c, d, e, f, g, h])"

text \<open>
  \<open>crypto.createHash('sha256').update(password).digest('hex')\<close>
\<close>

definition hashPassword :: "string \<Rightarrow> string" where
  "hashPassword password = digest_hex (sha256 (map of_char password))"

section \<open>Data model\<close>

text \<open>JSON values as the handlers send them with \<open>res.json\<close>.\<close>

datatype json = JNull | JBool bool | JNum int | JStr string
  | JArr "json list" | JObj "(string \<times> json) list"

type_synonym row = "(string \<times> json) list"

text \<open>
  The \<open>devices\<close> table, with the columns the routes read and write, and the
  \<open>projects\<close> table it references. The schema itself is not part of the repository:
  the column list is the one the source names.
\<close>

record device =
  device_id :: string
  project_id :: string
  name :: string
  hardware_type :: string
  device_token :: "string option"
  is_provisioned :: bool
  mqtt_username :: "string option"
  mqtt_password_hash :: "string option"
  mac_address :: "string option"
  firmware_version :: "string option"
  provisioned_at :: "string option"
  created_at :: nat

record project =
  p_id :: string
  p_user_id :: string
  p_name :: string
  p_slug :: string

record store =
  devices :: "device list"
  projects :: "project list"
  device_channels :: "(string \<times> row) list"

text \<open>
  Everything a handler obtains from outside the process: whether a call to the store
  reports an error, the bytes of \<open>crypto.randomBytes\<close>, the clock, the process
  environment, the result of the database function \<open>generate_device_token\<close>, the
  identifier and creation time the database gives a new row, the verdict of the
  identity provider on a bearer token, and the row-level policy of the user-scoped
  client made from that token. A call to the store that reports an error changes no
  row; this holds also for an update that ends in \<open>.single()\<close> and does not select
  exactly one row.
\<close>

datatype store_call = FindByToken | UpdateCredentials | SelectDevices | SelectDevice
  | SelectProject | InsertDevice | UpdateDevice | DeleteDevice | UpdateToken

datatype auth_reply = AuthThrows | AuthError | AuthUser string

record env =
  store_fails :: "store_call \<Rightarrow> bool"
  random_byte :: "nat \<Rightarrow> byte"
  now :: string
  EMQX_BROKER_HOST :: "string option"
  generate_device_token :: "string option"
  new_device_id :: string
  new_created_at :: nat
  getUser :: "string \<Rightarrow> auth_reply"
  rls_device :: "string \<Rightarrow> device \<Rightarrow> bool"
  rls_project :: "string \<Rightarrow> project \<Rightarrow> bool"

record client =
  can_device :: "device \<Rightarrow> bool"
  can_project :: "project \<Rightarrow> bool"

datatype device_route = GET_devices | GET_device | POST_devices | PATCH_device
  | DELETE_device | POST_regenerate_token

datatype route = Devices device_route | POST_provision

record request =
  route :: route
  authorization :: "string option"
  param_id :: string
  query_project_id :: "string option"
  b_device_token :: "string option"
  b_mac_address :: "string option"
  b_firmware_version :: "string option"
  b_project_id :: "string option"
  b_name :: "string option"
  b_hardware_type :: "string option"

record mqtt_credentials =
  host :: string
  port :: nat
  username :: string
  password :: string
  client_id :: string
  use_tls :: bool

record topic_patterns =
  subscribe :: string
  state_prefix :: string
  telemetry_prefix :: string

text \<open>
  The response bodies of the routes: \<open>{errors}\<close>, \<open>{error}\<close>, \<open>{error, message}\<close>,
  \<open>{mqtt, topics, device: {id, name}}\<close>, \<open>{devices}\<close>, \<open>{device}\<close>, \<open>{device, message}\<close>
  and the empty body of a 204.
\<close>

datatype body =
    ValidationErrors "string list"
  | ErrorBody string
  | ErrorMessage string string
  | Provisioned mqtt_credentials topic_patterns string string
  | DevicesBody "row list"
  | DeviceBody row
  | DeviceMessage row string
  | NoContent

record response =
  status :: nat
  body :: body

section \<open>Store access\<close>

definition jopt :: "string option \<Rightarrow> json" where
  "jopt v = (case v of None \<Rightarrow> JNull | Some s \<Rightarrow> JStr s)"

text \<open>A row of \<open>devices\<close> as \<open>select('*')\<close> returns it.\<close>

definition device_row :: "device \<Rightarrow> row" where
  "device_row d =
     [(''id'', JStr (device_id d)),
      (''project_id'', JStr (project_id d)),
      (''name'', JStr (name d)),
      (''hardware_type'', JStr (hardware_type d)),
      (''device_token'', jopt (device_token d)),
      (''is_provisioned'', JBool (is_provisioned d)),
      (''mqtt_username'', jopt (mqtt_username d)),
      (''mqtt_password_hash'', jopt (mqtt_password_hash d)),
      (''mac_address'', jopt (mac_address d)),
      (''firmware_version'', jopt (firmware_version d)),
      (''provisioned_at'', jopt (provisioned_at d)),
      (''created_at'', JNum (int (created_at d)))]"

text \<open>
  \<open>{...data, k: undefined}\<close>: the member is set to \<open>undefined\<close>, and \<open>res.json\<close> leaves
  such a member out of what it sends.
\<close>

definition hide :: "string \<Rightarrow> row \<Rightarrow> row" where
  "hide k r = filter (\<lambda>(k', v). k' \<noteq> k) r"

definition project_of :: "store \<Rightarrow> device \<Rightarrow> project option" where
  "project_of s d = find (\<lambda>p. p_id p = project_id d) (projects s)"

text \<open>The embedded \<open>project:projects(id, name, slug)\<close> and \<open>channels:device_channels(*)\<close>.\<close>

definition project_json :: "store \<Rightarrow> device \<Rightarrow> json" where
  "project_json s d =
     (case project_of s d of
        None \<Rightarrow> JNull
      | Some p \<Rightarrow> JObj [(''id'', JStr (p_id p)), (''name'', JStr (p_name p)),
                        (''slug'', JStr (p_slug p))])"

definition channels_json :: "store \<Rightarrow> device \<Rightarrow> json" where
  "channels_json s d =
     JArr (map (\<lambda>(i, ch). JObj ch) (filter (\<lambda>(i, ch). i = device_id d) (device_channels s)))"

text \<open>\<open>.update(...)\<close> with a filter: every row the filter selects is rewritten.\<close>

definition update_where :: "(device \<Rightarrow> bool) \<Rightarrow> (device \<Rightarrow> device) \<Rightarrow> store \<Rightarrow> store" where
  "update_where P f s = s\<lparr>devices := map (\<lambda>d. if P d then f d else d) (devices s)\<rparr>"

text \<open>
  The lookup of the provisioning route, through the admin client:
  \<open>.select('*, project:projects(user_id)').eq('device_token', device_token).single()\<close>.
  \<open>single()\<close> reports an error unless exactly one row is selected.
\<close>

definition find_by_token :: "env \<Rightarrow> store \<Rightarrow> string \<Rightarrow> (device \<times> project option) option" where
  "find_by_token e s tok =
     (if store_fails e FindByToken then None
      else case filter (\<lambda>d. device_token d = Some tok) (devices s) of
             [d] \<Rightarrow> Some (d, project_of s d)
           | _ \<Rightarrow> None)"

definition bad_request :: "string list \<Rightarrow> response" where
  "bad_request errs = \<lparr>status = 400, body = ValidationErrors errs\<rparr>"

section \<open>POST /api/provision\<close>

definition randomBytes :: "env \<Rightarrow> nat \<Rightarrow> byte list" where
  "randomBytes e n = map (random_byte e) [0..<n]"

definition generateSecurePassword :: "env \<Rightarrow> string" where
  "generateSecurePassword e = base64url (randomBytes e 24)"

text \<open>
  \<open>topicBase\<close>, the template \<open>u/${userId}/d/${deviceId}\<close>, and the \<open>topics\<close> member of the
  response built from it.
\<close>

definition topicBase :: "string \<Rightarrow> string \<Rightarrow> string" where
  "topicBase userId deviceId = ''u/'' @ userId @ ''/d/'' @ deviceId"

definition topics :: "string \<Rightarrow> string \<Rightarrow> topic_patterns" where
  "topics userId deviceId =
     \<lparr>subscribe = topicBase userId deviceId @ ''/cmd/#'',
      state_prefix = topicBase userId deviceId @ ''/state/'',
      telemetry_prefix = topicBase userId deviceId @ ''/tel/''\<rparr>"

text \<open>
  The update of the provisioning route. \<open>mac_address\<close> and \<open>firmware_version\<close> are
  \<open>undefined\<close> when the body omits them, and the client does not send such members:
  the column keeps its value.
\<close>

definition set_credentials ::
  "string \<Rightarrow> string \<Rightarrow> string option \<Rightarrow> string option \<Rightarrow> string \<Rightarrow> device \<Rightarrow> device" where
  "set_credentials uname pwhash mac fw at d =
     d\<lparr>mqtt_username := Some uname,
       mqtt_password_hash := Some pwhash,
       mac_address := (case mac of None \<Rightarrow> mac_address d | Some m \<Rightarrow> Some m),
       firmware_version := (case fw of None \<Rightarrow> firmware_version d | Some v \<Rightarrow> Some v),
       is_provisioned := True,
       provisioned_at := Some at\<rparr>"

definition provisioning_failed :: response where
  "provisioning_failed =
     \<lparr>status = 500,
      body = ErrorMessage ''Provisioning failed'' ''Internal server error during provisioning''\<rparr>"

definition broker_host :: "env \<Rightarrow> string" where
  "broker_host e =
     (case EMQX_BROKER_HOST e of
        None \<Rightarrow> ''broker.emqx.io''
      | Some h \<Rightarrow> if h = [] then ''broker.emqx.io'' else h)"

text \<open>
  The handler, after validation. A device whose embedded project is \<open>null\<close> makes
  \<open>device.project.user_id\<close> throw, which the \<open>catch\<close> turns into the 500 response.
\<close>

definition provision_handler ::
  "env \<Rightarrow> string \<Rightarrow> string option \<Rightarrow> string option \<Rightarrow> store \<Rightarrow> store \<times> response" where
  "provision_handler e tok mac fw s =
     (case find_by_token e s tok of
        None \<Rightarrow>
          (s, \<lparr>status = 401,
               body = ErrorMessage ''Invalid device token''
                        ''Device not found or token is incorrect''\<rparr>)
      | Some (dev, proj) \<Rightarrow>
          if is_provisioned dev then
            (s, \<lparr>status = 409,
                 body = ErrorMessage ''Already provisioned''
                   ''This device has already been provisioned. Use regenerate-token to re-provision.''\<rparr>)
          else
            (case proj of
               None \<Rightarrow> (s, provisioning_failed)
             | Some p \<Rightarrow>
                 let uname = mqttUsername (p_user_id p) (device_id dev);
                     mqttPassword = generateSecurePassword e
                 in if store_fails e UpdateCredentials then (s, provisioning_failed)
                    else
                      (update_where (\<lambda>d. device_id d = device_id dev)
                         (set_credentials uname (hashPassword mqttPassword) mac fw (now e)) s,
                       \<lparr>status = 200,
                        body = Provisioned
                          \<lparr>host = broker_host e, port = 8883, username = uname,
                           password = mqttPassword, client_id = device_id dev,
                           use_tls = True\<rparr>
                          (topics (p_user_id p) (device_id dev))
                          (device_id dev) (name dev)\<rparr>)))"

text \<open>
  The validators of the route, as the names of the fields they reject:
  \<open>device_token\<close> must be a string of 64 characters; \<open>mac_address\<close>, when present,
  must have the six-octet form.
\<close>

definition provision_errors :: "request \<Rightarrow> string list" where
  "provision_errors r =
     (case b_device_token r of
        None \<Rightarrow> [''device_token'']
      | Some t \<Rightarrow> if length t = 64 then [] else [''device_token''])
     @ (case b_mac_address r of
          None \<Rightarrow> []
        | Some m \<Rightarrow> if is_mac m then [] else [''mac_address''])"

definition provision :: "env \<Rightarrow> request \<Rightarrow> store \<Rightarrow> store \<times> response" where
  "provision e r s =
     (case b_device_token r of
        None \<Rightarrow> (s, bad_request (provision_errors r))
      | Some tok \<Rightarrow>
          if provision_errors r = []
          then provision_handler e tok (b_mac_address r) (b_firmware_version r) s
          else (s, bad_request (provision_errors r)))"

section \<open>The device routes (routes/devices.js)\<close>

text \<open>
  Every route here runs behind \<open>authenticate\<close> and talks to the store through
  \<open>req.supabase\<close>, the client scoped to the caller: it sees and changes only the rows
  the row-level policy grants.
\<close>

definition in_name_range :: "string \<Rightarrow> bool" where
  "in_name_range n = (1 \<le> length (trim n) \<and> length (trim n) \<le> 100)"

text \<open>
  A body field after its sanitizer, read for truthiness (\<open>if (req.body.name)\<close>,
  \<open>hardware_type || 'ESP32'\<close>): a missing field and the empty string are falsy.
\<close>

definition truthy :: "string option \<Rightarrow> string option" where
  "truthy v = (case v of None \<Rightarrow> None | Some x \<Rightarrow> if trim x = [] then None else Some (trim x))"

definition selected :: "client \<Rightarrow> string \<Rightarrow> device \<Rightarrow> bool" where
  "selected c i d = (can_device c d \<and> device_id d = i)"

subsection \<open>GET /api/devices\<close>

definition sanitized :: "row \<Rightarrow> row" where
  "sanitized r = hide ''mqtt_password_hash'' (hide ''device_token'' r)"

definition list_devices :: "client \<Rightarrow> env \<Rightarrow> request \<Rightarrow> store \<Rightarrow> store \<times> response" where
  "list_devices c e r s =
     (if (case query_project_id r of None \<Rightarrow> False | Some q \<Rightarrow> \<not> isUUID q)
      then (s, bad_request [''project_id''])
      else if store_fails e SelectDevices
      then (s, \<lparr>status = 500, body = ErrorBody ''Failed to fetch devices''\<rparr>)
      else
        let ordered = rev (sort_key created_at (filter (can_device c) (devices s)));
            data = (case query_project_id r of
                      None \<Rightarrow> ordered
                    | Some q \<Rightarrow> if q = [] then ordered
                                else filter (\<lambda>d. project_id d = q) ordered)
        in (s, \<lparr>status = 200,
                body = DevicesBody
                  (map (\<lambda>d. sanitized (device_row d @ [(''project'', project_json s d)])) data)\<rparr>))"

subsection \<open>GET /api/devices/:id\<close>

definition not_found :: response where
  "not_found = \<lparr>status = 404, body = ErrorBody ''Device not found''\<rparr>"

definition get_device :: "client \<Rightarrow> env \<Rightarrow> request \<Rightarrow> store \<Rightarrow> store \<times> response" where
  "get_device c e r s =
     (if \<not> isUUID (param_id r) then (s, bad_request [''id''])
      else if store_fails e SelectDevice
      then (s, \<lparr>status = 500, body = ErrorBody ''Failed to fetch device''\<rparr>)
      else
        (case filter (selected c (param_id r)) (devices s) of
           [d] \<Rightarrow>
             (s, \<lparr>status = 200,
                  body = DeviceBody
                    (sanitized (device_row d @ [(''project'', project_json s d),
                                                (''channels'', channels_json s d)]))\<rparr>)
         | _ \<Rightarrow> (s, not_found)))"

subsection \<open>POST /api/devices\<close>

definition create_errors :: "request \<Rightarrow> string list" where
  "create_errors r =
     (case b_project_id r of
        None \<Rightarrow> [''project_id'']
      | Some p \<Rightarrow> if isUUID p then [] else [''project_id''])
     @ (case b_name r of
          None \<Rightarrow> [''name'']
        | Some n \<Rightarrow> if in_name_range n then [] else [''name''])"

text \<open>
  Modelled from the spec: the column defaults of the \<open>devices\<close> table, whose schema
  is not in the repository (\<open>is_provisioned\<close> initially false, the broker fields null
  until provisioning succeeds). The rest of the inserted row is the handler's: it
  supplies \<open>project_id\<close>, \<open>name\<close>, \<open>hardware_type\<close> and \<open>device_token\<close>; the identifier
  and the creation time come from the database.
\<close>

definition new_device :: "env \<Rightarrow> string \<Rightarrow> string \<Rightarrow> string option \<Rightarrow> device" where
  "new_device e pid n hw =
     \<lparr>device_id = new_device_id e,
      project_id = pid,
      name = n,
      hardware_type = (case truthy hw of None \<Rightarrow> ''ESP32'' | Some h \<Rightarrow> h),
      device_token = generate_device_token e,
      is_provisioned = False,
      mqtt_username = None,
      mqtt_password_hash = None,
      mac_address = None,
      firmware_version = None,
      provisioned_at = None,
      created_at = new_created_at e\<rparr>"

definition create_handler ::
  "client \<Rightarrow> env \<Rightarrow> string \<Rightarrow> string \<Rightarrow> string option \<Rightarrow> store \<Rightarrow> store \<times> response" where
  "create_handler c e pid n hw s =
     (if store_fails e SelectProject
      then (s, \<lparr>status = 404, body = ErrorBody ''Project not found''\<rparr>)
      else
        (case filter (\<lambda>p. can_project c p \<and> p_id p = pid) (projects s) of
           [p] \<Rightarrow>
             if store_fails e InsertDevice
             then (s, \<lparr>status = 500, body = ErrorBody ''Failed to create device''\<rparr>)
             else
               (s\<lparr>devices := devices s @ [new_device e pid n hw]\<rparr>,
                \<lparr>status = 201,
                 body = DeviceMessage
                   (hide ''mqtt_password_hash'' (device_row (new_device e pid n hw)))
                   ''Save this device_token! It will not be shown again.''\<rparr>)
         | _ \<Rightarrow> (s, \<lparr>status = 404, body = ErrorBody ''Project not found''\<rparr>)))"

definition create_device :: "client \<Rightarrow> env \<Rightarrow> request \<Rightarrow> store \<Rightarrow> store \<times> response" where
  "create_device c e r s =
     (case (b_project_id r, b_name r) of
        (Some pid, Some n) \<Rightarrow>
          if create_errors r = [] then create_handler c e pid (trim n) (b_hardware_type r) s
          else (s, bad_request (create_errors r))
      | _ \<Rightarrow> (s, bad_request (create_errors r)))"

subsection \<open>PATCH /api/devices/:id\<close>

definition update_errors :: "request \<Rightarrow> string list" where
  "update_errors r =
     (if isUUID (param_id r) then [] else [''id''])
     @ (case b_name r of
          None \<Rightarrow> []
        | Some n \<Rightarrow> if in_name_range n then [] else [''name''])"

text \<open>\<open>.update(updates)\<close>: only the members of \<open>updates\<close> are written.\<close>

definition apply_updates :: "string option \<Rightarrow> string option \<Rightarrow> device \<Rightarrow> device" where
  "apply_updates n hw d =
     d\<lparr>name := (case n of None \<Rightarrow> name d | Some x \<Rightarrow> x),
       hardware_type := (case hw of None \<Rightarrow> hardware_type d | Some x \<Rightarrow> x)\<rparr>"

definition update_device :: "client \<Rightarrow> env \<Rightarrow> request \<Rightarrow> store \<Rightarrow> store \<times> response" where
  "update_device c e r s =
     (if update_errors r \<noteq> [] then (s, bad_request (update_errors r))
      else if truthy (b_name r) = None \<and> truthy (b_hardware_type r) = None
      then (s, \<lparr>status = 400, body = ErrorBody ''No valid fields to update''\<rparr>)
      else if store_fails e UpdateDevice
      then (s, \<lparr>status = 500, body = ErrorBody ''Failed to update device''\<rparr>)
      else
        (case filter (selected c (param_id r)) (devices s) of
           [d] \<Rightarrow>
             (update_where (selected c (param_id r))
                (apply_updates (truthy (b_name r)) (truthy (b_hardware_type r))) s,
              \<lparr>status = 200,
               body = DeviceBody
                 (sanitized
                    (device_row
                       (apply_updates (truthy (b_name r)) (truthy (b_hardware_type r)) d)))\<rparr>)
         | _ \<Rightarrow> (s, not_found)))"

subsection \<open>DELETE /api/devices/:id\<close>

definition delete_device :: "client \<Rightarrow> env \<Rightarrow> request \<Rightarrow> store \<Rightarrow> store \<times> response" where
  "delete_device c e r s =
     (if \<not> isUUID (param_id r) then (s, bad_request [''id''])
      else if store_fails e DeleteDevice
      then (s, \<lparr>status = 500, body = ErrorBody ''Failed to delete device''\<rparr>)
      else
        (s\<lparr>devices := filter (\<lambda>d. \<not> selected c (param_id r) d) (devices s),
           device_channels :=
             (if list_ex (selected c (param_id r)) (devices s)
              then filter (\<lambda>(i, ch). i \<noteq> param_id r) (device_channels s)
              else device_channels s)\<rparr>,
         \<lparr>status = 204, body = NoContent\<rparr>))"

subsection \<open>POST /api/devices/:id/regenerate-token\<close>

definition reset_token :: "string option \<Rightarrow> device \<Rightarrow> device" where
  "reset_token newToken d =
     d\<lparr>device_token := newToken,
       is_provisioned := False,
       mqtt_username := None,
       mqtt_password_hash := None\<rparr>"

definition regenerate_token :: "client \<Rightarrow> env \<Rightarrow> request \<Rightarrow> store \<Rightarrow> store \<times> response" where
  "regenerate_token c e r s =
     (if \<not> isUUID (param_id r) then (s, bad_request [''id''])
      else
        let newToken = generate_device_token e
        in if store_fails e UpdateToken
           then (s, \<lparr>status = 500, body = ErrorBody ''Failed to regenerate token''\<rparr>)
           else
             (case filter (selected c (param_id r)) (devices s) of
                [d] \<Rightarrow>
                  (update_where (selected c (param_id r)) (reset_token newToken) s,
                   \<lparr>status = 200,
                    body = DeviceMessage (device_row (reset_token newToken d))
                      ''New device_token generated. Save it! The old token is now invalid.''\<rparr>)
              | _ \<Rightarrow> (s, not_found)))"

section \<open>Authentication and routing (middleware/auth.js, index.js)\<close>

definition unauthorized :: "string \<Rightarrow> response" where
  "unauthorized msg = \<lparr>status = 401, body = ErrorMessage ''Unauthorized'' msg\<rparr>"

text \<open>
  \<open>authenticate\<close> answers itself, or passes on the access token
  \<open>authHeader.split(' ')[1]\<close> from which the user-scoped client is made.
\<close>

definition authenticate :: "env \<Rightarrow> request \<Rightarrow> response + string" where
  "authenticate e r =
     (case authorization r of
        None \<Rightarrow> Inl (unauthorized ''Missing or invalid Authorization header'')
      | Some authHeader \<Rightarrow>
          if take 7 authHeader \<noteq> ''Bearer ''
          then Inl (unauthorized ''Missing or invalid Authorization header'')
          else
            let token = takeWhile (\<lambda>c. c \<noteq> CHR '' '') (drop 7 authHeader)
            in (case getUser e token of
                  AuthUser u \<Rightarrow> Inr token
                | AuthError \<Rightarrow> Inl (unauthorized ''Invalid or expired token'')
                | AuthThrows \<Rightarrow>
                    Inl \<lparr>status = 500,
                         body = ErrorMessage ''Internal Server Error'' ''Authentication failed''\<rparr>))"

definition createUserClient :: "env \<Rightarrow> string \<Rightarrow> client" where
  "createUserClient e accessToken =
     \<lparr>can_device = rls_device e accessToken, can_project = rls_project e accessToken\<rparr>"

text \<open>
  The application: \<open>/api/provision\<close> is mounted without \<open>authenticate\<close>; the router of
  \<open>/api/devices\<close> uses it before every route.
\<close>

definition devices_router ::
  "env \<Rightarrow> device_route \<Rightarrow> request \<Rightarrow> store \<Rightarrow> store \<times> response" where
  "devices_router e dr r s =
     (case authenticate e r of
        Inl resp \<Rightarrow> (s, resp)
      | Inr token \<Rightarrow>
          (case dr of
             GET_devices \<Rightarrow> list_devices (createUserClient e token) e r s
           | GET_device \<Rightarrow> get_device (createUserClient e token) e r s
           | POST_devices \<Rightarrow> create_device (createUserClient e token) e r s
           | PATCH_device \<Rightarrow> update_device (createUserClient e token) e r s
           | DELETE_device \<Rightarrow> delete_device (createUserClient e token) e r s
           | POST_regenerate_token \<Rightarrow> regenerate_token (createUserClient e token) e r s))"

definition app :: "env \<Rightarrow> request \<Rightarrow> store \<Rightarrow> store \<times> response" where
  "app e r s =
     (case route r of
        POST_provision \<Rightarrow> provision e r s
      | Devices dr \<Rightarrow> devices_router e dr r s)"

section \<open>What a response shows, and the invariant of a device\<close>

fun body_password :: "body \<Rightarrow> string option" where
  "body_password (Provisioned m t i n) = Some (password m)"
| "body_password _ = None"

fun body_topics :: "body \<Rightarrow> topic_patterns option" where
  "body_topics (Provisioned m t i n) = Some t"
| "body_topics _ = None"

fun body_username :: "body \<Rightarrow> string option" where
  "body_username (Provisioned m t i n) = Some (username m)"
| "body_username _ = None"

fun body_rows :: "body \<Rightarrow> row list" where
  "body_rows (DevicesBody rs) = rs"
| "body_rows (DeviceBody r) = [r]"
| "body_rows (DeviceMessage r m) = [r]"
| "body_rows _ = []"

text \<open>The member \<open>k\<close> of a row carries a string (it is neither left out nor \<open>null\<close>).\<close>

definition carries :: "string \<Rightarrow> row \<Rightarrow> bool" where
  "carries k r = (case map_of r k of Some (JStr v) \<Rightarrow> True | _ \<Rightarrow> False)"

definition exposes_hash :: "response \<Rightarrow> bool" where
  "exposes_hash resp = list_ex (carries ''mqtt_password_hash'') (body_rows (body resp))"


definition device_inv :: "device \<Rightarrow> bool" where
  "device_inv d =
     (is_provisioned d = (mqtt_username d \<noteq> None \<and> mqtt_password_hash d \<noteq> None))"

definition store_inv :: "store \<Rightarrow> bool" where
  "store_inv s = list_all device_inv (devices s)"

definition url_safe :: "string \<Rightarrow> bool" where
  "url_safe p = list_all (\<lambda>c. c \<in> set base64url_alphabet) p"

section \<open>Example data\<close>

text \<open>
  One project with one freshly created device, the same device after a provisioning,
  an environment in which no call fails, and its variant in which exactly one call to
  the store reports an error.
\<close>

definition example_project :: project where
  "example_project =
     \<lparr>p_id = ''aaaaaaaa-0000-4000-8000-000000000001'',
      p_user_id = ''11111111-1111-4111-8111-111111111111'',
      p_name = ''Smart Home'', p_slug = ''smart-home''\<rparr>"

definition example_device :: device where
  "example_device =
     \<lparr>device_id = ''22222222-2222-4222-8222-222222222222'',
      project_id = ''aaaaaaaa-0000-4000-8000-000000000001'',
      name = ''Living Room Plug'',
      hardware_type = ''ESP32'',
      device_token = Some (replicate 64 CHR ''a''),
      is_provisioned = False,
      mqtt_username = None,
      mqtt_password_hash = None,
      mac_address = None,
      firmware_version = None,
      provisioned_at = None,
      created_at = 1\<rparr>"

definition example_store :: store where
  "example_store =
     \<lparr>devices = [example_device], projects = [example_project], device_channels = []\<rparr>"

definition example_env :: env where
  "example_env =
     \<lparr>store_fails = (\<lambda>c. False),
      random_byte = (\<lambda>i. of_nat i),
      now = ''2026-01-01T00:00:00.000Z'',
      EMQX_BROKER_HOST = None,
      generate_device_token = Some (replicate 64 CHR ''b''),
      new_device_id = ''33333333-3333-4333-8333-333333333333'',
      new_created_at = 2,
      getUser = (\<lambda>t. if t = ''jwt'' then AuthUser ''11111111-1111-4111-8111-111111111111'' else AuthError),
      rls_device = (\<lambda>t d. True),
      rls_project = (\<lambda>t p. True)\<rparr>"

definition example_request :: request where
  "example_request =
     \<lparr>route = POST_provision,
      authorization = None,
      param_id = ''22222222-2222-4222-8222-222222222222'',
      query_project_id = None,
      b_device_token = Some (replicate 64 CHR ''a''),
      b_mac_address = Some ''AA:BB:CC:DD:EE:FF'',
      b_firmware_version = Some ''1.0.0'',
      b_project_id = None,
      b_name = None,
      b_hardware_type = None\<rparr>"

definition example_client :: client where
  "example_client = \<lparr>can_device = (\<lambda>d. True), can_project = (\<lambda>p. True)\<rparr>"


definition provisioned_device :: device where
  "provisioned_device =
     example_device\<lparr>is_provisioned := True,
       mqtt_username := Some ''u_11111111_d_22222222'',
       mqtt_password_hash := Some ''5e884898da28047151d0e56f8dc6292773603d0d6aabbdd62a11ef721d1542d8'',
       provisioned_at := Some ''2026-01-01T00:00:00.000Z''\<rparr>"

definition provisioned_store :: store where
  "provisioned_store = example_store\<lparr>devices := [provisioned_device]\<rparr>"

definition failing_env :: "store_call \<Rightarrow> env" where
  "failing_env call = example_env\<lparr>store_fails := (\<lambda>c. c = call)\<rparr>"

definition unknown_request :: request where
  "unknown_request = example_request\<lparr>b_device_token := Some (replicate 64 CHR ''c'')\<rparr>"

section \<open>Lemmas\<close>

subsection \<open>The credential generator\<close>

lemma b64_in_alphabet: "b64 n \<in> set base64url_alphabet"
proof -
  have "length base64url_alphabet = 64" by (simp add: base64url_alphabet_def)
  then have "n mod 64 < length base64url_alphabet" by simp
  then show ?thesis unfolding b64_def by (rule nth_mem)
qed

lemma length_base64url: "length (base64url bs) = (4 * length bs + 2) div 3"
  by (induction bs rule: base64url.induct) (simp_all add: Let_def)

lemma set_base64url: "set (base64url bs) \<subseteq> set base64url_alphabet"
  by (induction bs rule: base64url.induct) (simp_all add: Let_def b64_in_alphabet)

lemma length_generateSecurePassword: "length (generateSecurePassword e) = 32"
  by (simp add: generateSecurePassword_def randomBytes_def length_base64url)

lemma url_safe_generateSecurePassword: "url_safe (generateSecurePassword e)"
  using set_base64url [of "randomBytes e 24"]
  by (auto simp: url_safe_def generateSecurePassword_def list_all_iff)

lemma length_hex32: "length (hex32 w) = 8"
  by (simp add: hex32_def)

lemma length_digest_hex: "length (digest_hex st) = 64"
  by (cases st rule: digest_hex.cases) (simp add: length_hex32)

lemma length_hashPassword: "length (hashPassword p) = 64"
  by (simp add: hashPassword_def length_digest_hex)

lemma hex_digit_in: "hex_digit n \<in> set ''0123456789abcdef''"
proof -
  have "n mod 16 < length ''0123456789abcdef''" by simp
  then show ?thesis unfolding hex_digit_def by (rule nth_mem)
qed

lemma set_hex32: "set (hex32 w) \<subseteq> set ''0123456789abcdef''"
  using hex_digit_in by (auto simp: hex32_def simp del: list.set)

lemma set_hashPassword: "set (hashPassword p) \<subseteq> set ''0123456789abcdef''"
proof -
  obtain a b c d e f g h where st: "sha256 (map of_char p) = (a, b, c, d, e, f, g, h)"
    by (cases "sha256 (map of_char p)") auto
  show ?thesis
    unfolding hashPassword_def st digest_hex.simps
    using set_hex32 by (auto simp del: list.set simp: subset_iff)
qed

subsection \<open>The provisioning route\<close>

lemma find_by_token_SomeD:
  assumes "find_by_token e s tok = Some (d, pr)"
  shows "\<not> store_fails e FindByToken"
    and "filter (\<lambda>x. device_token x = Some tok) (devices s) = [d]"
    and "pr = project_of s d"
  using assms by (auto simp: find_by_token_def split: if_splits list.splits)

lemma find_by_token_NoneI:
  "\<forall>d \<in> set (devices s). device_token d \<noteq> Some tok \<Longrightarrow> find_by_token e s tok = None"
proof -
  assume "\<forall>d \<in> set (devices s). device_token d \<noteq> Some tok"
  then have "filter (\<lambda>d. device_token d = Some tok) (devices s) = []"
    by (simp add: filter_empty_conv)
  then show ?thesis by (simp add: find_by_token_def)
qed

lemma device_token_set_credentials [simp]:
  "device_token (set_credentials u h m f a d) = device_token d"
  "device_id (set_credentials u h m f a d) = device_id d"
  "project_id (set_credentials u h m f a d) = project_id d"
  "is_provisioned (set_credentials u h m f a d)"
  "mqtt_username (set_credentials u h m f a d) = Some u"
  "mqtt_password_hash (set_credentials u h m f a d) = Some h"
  by (simp_all add: set_credentials_def)

lemma filter_map_preserved:
  "(\<And>x. Q (g x) = Q x) \<Longrightarrow> filter Q (map g xs) = map g (filter Q xs)"
  by (induction xs) auto

lemma provision_handler_success:
  assumes "find_by_token e s tok = Some (d, Some p)" "\<not> is_provisioned d"
    "\<not> store_fails e UpdateCredentials"
  shows "provision_handler e tok mac fw s =
     (update_where (\<lambda>x. device_id x = device_id d)
        (set_credentials (mqttUsername (p_user_id p) (device_id d))
           (hashPassword (generateSecurePassword e)) mac fw (now e)) s,
      \<lparr>status = 200,
       body = Provisioned
         \<lparr>host = broker_host e, port = 8883,
          username = mqttUsername (p_user_id p) (device_id d),
          password = generateSecurePassword e, client_id = device_id d, use_tls = True\<rparr>
         (topics (p_user_id p) (device_id d)) (device_id d) (name d)\<rparr>)"
  using assms by (simp add: provision_handler_def Let_def)

lemma provision_valid:
  "provision_errors r = [] \<Longrightarrow> b_device_token r = Some tok \<Longrightarrow>
   provision e r s = provision_handler e tok (b_mac_address r) (b_firmware_version r) s"
  by (simp add: provision_def)

lemma find_after_provision:
  assumes "find_by_token e s tok = Some (d, Some p)" "\<not> store_fails e2 FindByToken"
  shows "find_by_token e2
           (update_where (\<lambda>x. device_id x = device_id d) (set_credentials u h m f a) s) tok
         = Some (set_credentials u h m f a d, Some p)"
proof -
  let ?g = "\<lambda>x. if device_id x = device_id d then set_credentials u h m f a x else x"
  have flt: "filter (\<lambda>x. device_token x = Some tok) (devices s) = [d]"
    and pr: "project_of s d = Some p"
    using find_by_token_SomeD [OF assms(1)] by simp_all
  have "filter (\<lambda>x. device_token x = Some tok) (map ?g (devices s))
        = map ?g (filter (\<lambda>x. device_token x = Some tok) (devices s))"
    by (rule filter_map_preserved) simp
  then have "filter (\<lambda>x. device_token x = Some tok) (map ?g (devices s))
        = [set_credentials u h m f a d]"
    by (simp add: flt)
  moreover have "project_of (update_where (\<lambda>x. device_id x = device_id d)
                   (set_credentials u h m f a) s) (set_credentials u h m f a d) = Some p"
    using pr by (simp add: project_of_def update_where_def)
  ultimately show ?thesis
    using assms(2) by (simp add: find_by_token_def update_where_def)
qed

lemma provision_handler_conflict:
  assumes "find_by_token e s tok = Some (d, pr)" "is_provisioned d"
  shows "provision_handler e tok mac fw s =
     (s, \<lparr>status = 409,
          body = ErrorMessage ''Already provisioned''
            ''This device has already been provisioned. Use regenerate-token to re-provision.''\<rparr>)"
  using assms by (simp add: provision_handler_def)

lemma provision_handler_unknown:
  assumes "find_by_token e s tok = None"
  shows "provision_handler e tok mac fw s =
     (s, \<lparr>status = 401,
          body = ErrorMessage ''Invalid device token''
                   ''Device not found or token is incorrect''\<rparr>)"
  using assms by (simp add: provision_handler_def)

lemma provision_invalid:
  "provision_errors r \<noteq> [] \<Longrightarrow> provision e r s = (s, bad_request (provision_errors r))"
  by (simp add: provision_def split: option.splits)

lemma no_password_authenticate:
  "authenticate e r = Inl resp \<Longrightarrow> body_password (body resp) = None"
  by (auto simp: authenticate_def unauthorized_def Let_def
      split: option.splits if_splits auth_reply.splits)

lemma no_password_list: "body_password (body (snd (list_devices c e r s))) = None"
  by (simp add: list_devices_def bad_request_def Let_def)

lemma no_password_get: "body_password (body (snd (get_device c e r s))) = None"
  by (simp add: get_device_def bad_request_def not_found_def split: list.splits)

lemma no_password_create: "body_password (body (snd (create_device c e r s))) = None"
  by (simp add: create_device_def create_handler_def bad_request_def
      split: option.splits list.splits)

lemma no_password_update: "body_password (body (snd (update_device c e r s))) = None"
  by (simp add: update_device_def bad_request_def not_found_def split: list.splits)

lemma no_password_delete: "body_password (body (snd (delete_device c e r s))) = None"
  by (simp add: delete_device_def bad_request_def)

lemma no_password_regenerate: "body_password (body (snd (regenerate_token c e r s))) = None"
  by (simp add: regenerate_token_def bad_request_def not_found_def Let_def split: list.splits)

lemma no_password_devices_router:
  "body_password (body (snd (devices_router e dr r s))) = None"
  by (simp add: devices_router_def no_password_authenticate no_password_list no_password_get
      no_password_create no_password_update no_password_delete no_password_regenerate
      split: sum.splits device_route.splits)

lemma password_only_on_success:
  "status (snd (provision e r s)) \<noteq> 200 \<Longrightarrow> body_password (body (snd (provision e r s))) = None"
  by (auto simp: provision_def provision_handler_def bad_request_def provisioning_failed_def
      Let_def split: option.splits prod.splits if_splits)

lemma provision_statuses:
  "status (snd (provision e r s)) = 200 \<or> status (snd (provision e r s)) = 400
   \<or> status (snd (provision e r s)) = 401 \<or> status (snd (provision e r s)) = 409
   \<or> status (snd (provision e r s)) = 500"
  by (simp add: provision_def provision_handler_def bad_request_def provisioning_failed_def
      Let_def split: option.splits prod.splits)

subsection \<open>The invariant\<close>

lemma device_inv_set_credentials: "device_inv (set_credentials u h m f a d)"
  by (simp add: device_inv_def set_credentials_def)

lemma device_inv_reset_token: "device_inv (reset_token t d)"
  by (simp add: device_inv_def reset_token_def)

lemma device_inv_apply_updates: "device_inv (apply_updates n hw d) = device_inv d"
  by (simp add: device_inv_def apply_updates_def)

lemma device_inv_new_device: "device_inv (new_device e pid n hw)"
  by (simp add: device_inv_def new_device_def)

lemma store_inv_update_where:
  "store_inv s \<Longrightarrow> (\<And>d. device_inv d \<Longrightarrow> device_inv (f d)) \<Longrightarrow> store_inv (update_where P f s)"
  by (auto simp: store_inv_def update_where_def list_all_iff)

lemma store_inv_provision: "store_inv s \<Longrightarrow> store_inv (fst (provision e r s))"
  by (auto simp: provision_def provision_handler_def Let_def store_inv_update_where
      device_inv_set_credentials split: option.splits prod.splits)

lemma store_inv_list: "store_inv s \<Longrightarrow> store_inv (fst (list_devices c e r s))"
  by (simp add: list_devices_def Let_def)

lemma store_inv_get: "store_inv s \<Longrightarrow> store_inv (fst (get_device c e r s))"
  by (simp add: get_device_def split: list.splits)

lemma store_inv_create: "store_inv s \<Longrightarrow> store_inv (fst (create_device c e r s))"
  by (auto simp: create_device_def create_handler_def store_inv_def device_inv_new_device
      split: option.splits list.splits)

lemma store_inv_update: "store_inv s \<Longrightarrow> store_inv (fst (update_device c e r s))"
  by (auto simp: update_device_def store_inv_update_where device_inv_apply_updates
      split: list.splits)

lemma store_inv_delete: "store_inv s \<Longrightarrow> store_inv (fst (delete_device c e r s))"
  by (auto simp: delete_device_def store_inv_def list_all_iff)

lemma store_inv_regenerate: "store_inv s \<Longrightarrow> store_inv (fst (regenerate_token c e r s))"
  by (auto simp: regenerate_token_def Let_def store_inv_update_where device_inv_reset_token
      split: list.splits)

lemma store_inv_devices_router: "store_inv s \<Longrightarrow> store_inv (fst (devices_router e dr r s))"
  by (simp add: devices_router_def store_inv_list store_inv_get store_inv_create
      store_inv_update store_inv_delete store_inv_regenerate
      split: sum.splits device_route.splits)

lemma provision_failure_keeps_store:
  "status (snd (provision e r s)) \<noteq> 200 \<Longrightarrow> fst (provision e r s) = s"
  by (auto simp: provision_def provision_handler_def bad_request_def provisioning_failed_def
      Let_def split: option.splits prod.splits if_splits)

lemma regenerate_failure_keeps_store:
  "status (snd (regenerate_token c e r s)) \<noteq> 200 \<Longrightarrow> fst (regenerate_token c e r s) = s"
  by (auto simp: regenerate_token_def bad_request_def not_found_def Let_def
      split: list.splits if_splits)

subsection \<open>What the responses carry\<close>

lemma map_of_hide_same: "map_of (hide k r) k = None"
  by (induction r) (auto simp: hide_def)

lemma not_carries_hide: "\<not> carries k (hide k r)"
  by (simp add: carries_def map_of_hide_same)


lemma not_carries_hash_sanitized: "\<not> carries ''mqtt_password_hash'' (sanitized r)"
  by (simp add: sanitized_def not_carries_hide)


lemma not_carries_hash_reset: "\<not> carries ''mqtt_password_hash'' (device_row (reset_token t d))"
  by (simp add: carries_def device_row_def reset_token_def jopt_def)

lemma hash_hidden_provision: "\<not> exposes_hash (snd (provision e r s))"
  by (auto simp: exposes_hash_def provision_def provision_handler_def bad_request_def
      provisioning_failed_def Let_def split: option.splits prod.splits)

lemma hash_hidden_list: "\<not> exposes_hash (snd (list_devices c e r s))"
  by (auto simp: exposes_hash_def list_devices_def bad_request_def Let_def list_ex_iff
      not_carries_hash_sanitized split: option.splits)

lemma hash_hidden_get: "\<not> exposes_hash (snd (get_device c e r s))"
  by (auto simp: exposes_hash_def get_device_def bad_request_def not_found_def
      not_carries_hash_sanitized split: list.splits)

lemma hash_hidden_create: "\<not> exposes_hash (snd (create_device c e r s))"
  by (auto simp: exposes_hash_def create_device_def create_handler_def bad_request_def
      not_carries_hide split: option.splits list.splits)

lemma hash_hidden_update: "\<not> exposes_hash (snd (update_device c e r s))"
  by (auto simp: exposes_hash_def update_device_def bad_request_def not_found_def
      not_carries_hash_sanitized split: list.splits)

lemma hash_hidden_delete: "\<not> exposes_hash (snd (delete_device c e r s))"
  by (auto simp: exposes_hash_def delete_device_def bad_request_def)

lemma hash_hidden_regenerate: "\<not> exposes_hash (snd (regenerate_token c e r s))"
  by (auto simp: exposes_hash_def regenerate_token_def bad_request_def not_found_def Let_def
      not_carries_hash_reset split: list.splits)

lemma hash_hidden_authenticate: "authenticate e r = Inl resp \<Longrightarrow> \<not> exposes_hash resp"
  by (auto simp: authenticate_def exposes_hash_def unauthorized_def Let_def
      split: option.splits if_splits auth_reply.splits)

lemma hash_hidden_devices_router: "\<not> exposes_hash (snd (devices_router e dr r s))"
  by (simp add: devices_router_def hash_hidden_list hash_hidden_get hash_hidden_create
      hash_hidden_update hash_hidden_delete hash_hidden_regenerate hash_hidden_authenticate
      split: sum.splits device_route.splits)




lemma list_all2_map_self: "(\<And>x. P x (f x)) \<Longrightarrow> list_all2 P xs (map f xs)"
  by (induction xs) auto

subsection \<open>The example data\<close>

lemmas example_defs = example_env_def example_store_def example_device_def example_project_def
  example_request_def example_client_def provisioned_device_def provisioned_store_def
  failing_env_def

lemma ex_find: "find_by_token example_env example_store (replicate 64 CHR ''a'') = Some (example_device, Some example_project)"
  by (simp add: find_by_token_def example_env_def example_store_def example_device_def example_project_def project_of_def)

lemma ex_errors: "provision_errors example_request = []"
  by (simp add: provision_errors_def example_request_def is_mac_def is_hex_def)

lemma ex_pw: "generateSecurePassword example_env = ''AAECAwQFBgcICQoLDA0ODxAREhMUFRYX''"
  apply (simp add: generateSecurePassword_def randomBytes_def example_env_def upt_rec[of _ "numeral _"] upt_rec[of 0])
  apply (simp add: b64_def base64url_alphabet_def)
  done

lemma ex_token: "b_device_token example_request = Some (replicate 64 CHR ''a'')"
  by (simp add: example_request_def)

lemma ex_fresh: "\<not> is_provisioned example_device"
  by (simp add: example_device_def)

lemma ex_find_failing:
  "call \<noteq> FindByToken \<Longrightarrow>
   find_by_token (failing_env call) example_store (replicate 64 CHR ''a'')
     = Some (example_device, Some example_project)"
  by (simp add: find_by_token_def failing_env_def example_env_def example_store_def
      example_device_def example_project_def project_of_def)

lemma ex_find_provisioned:
  "find_by_token example_env provisioned_store (replicate 64 CHR ''a'')
     = Some (provisioned_device, Some example_project)"
  by (simp add: find_by_token_def example_defs project_of_def)

lemma ex_uuid: "isUUID (param_id example_request)"
  by (simp add: example_request_def isUUID_def is_hex_def)

lemma ex_selected:
  "filter (selected example_client (param_id example_request)) (devices provisioned_store)
     = [provisioned_device]"
  by (simp add: selected_def example_defs)

lemma replicate_64_a_neq_c: "replicate 64 CHR ''a'' \<noteq> replicate 64 CHR ''c''"
proof
  assume "replicate 64 CHR ''a'' = replicate 64 CHR ''c''"
  then have "hd (replicate 64 CHR ''a'') = hd (replicate 64 CHR ''c'')" by simp
  then show False by simp
qed

section \<open>The claims\<close>

text \<open>
  C1, as amended. Let the request pass the validators of the route, let the lookup by
  its \<open>device_token\<close> resolve to the device \<open>d\<close> with its owning project \<open>p\<close>, let \<open>d\<close> be
  unprovisioned, and let the store write report no error. Then the provision operation
  succeeds with status 200; the username sent and stored is \<open>u_\<close>, the first 8
  characters of the owner's user id without hyphens, \<open>_d_\<close>, the first 8 characters of
  the device id without hyphens; every row of the device is provisioned afterwards and
  holds the hash of the password sent; and the password is the one generated in this
  call from 24 random bytes, at least 32 characters long (exactly 32) and over the
  URL-safe base64 alphabet.
\<close>

theorem provision_issues_credentials:
  assumes "provision_errors r = []" and "b_device_token r = Some tok"
    and "find_by_token e s tok = Some (d, Some p)" and "\<not> is_provisioned d"
    and "\<not> store_fails e UpdateCredentials"
  shows "status (snd (provision e r s)) = 200
       \<and> body_username (body (snd (provision e r s)))
           = Some (''u_'' @ take 8 (filter (\<lambda>c. c \<noteq> CHR ''-'') (p_user_id p))
                   @ ''_d_'' @ take 8 (filter (\<lambda>c. c \<noteq> CHR ''-'') (device_id d)))
       \<and> body_password (body (snd (provision e r s))) = Some (generateSecurePassword e)
       \<and> 32 \<le> length (generateSecurePassword e)
       \<and> url_safe (generateSecurePassword e)
       \<and> (\<exists>d' \<in> set (devices (fst (provision e r s))). device_id d' = device_id d)
       \<and> (\<forall>d' \<in> set (devices (fst (provision e r s))).
             device_id d' = device_id d \<longrightarrow>
               is_provisioned d'
             \<and> mqtt_username d'
                 = Some (''u_'' @ take 8 (filter (\<lambda>c. c \<noteq> CHR ''-'') (p_user_id p))
                         @ ''_d_'' @ take 8 (filter (\<lambda>c. c \<noteq> CHR ''-'') (device_id d)))
             \<and> mqtt_password_hash d' = Some (hashPassword (generateSecurePassword e)))"
proof -
  have run: "provision e r s =
     (update_where (\<lambda>x. device_id x = device_id d)
        (set_credentials (mqttUsername (p_user_id p) (device_id d))
           (hashPassword (generateSecurePassword e)) (b_mac_address r) (b_firmware_version r)
           (now e)) s,
      \<lparr>status = 200,
       body = Provisioned
         \<lparr>host = broker_host e, port = 8883,
          username = mqttUsername (p_user_id p) (device_id d),
          password = generateSecurePassword e, client_id = device_id d, use_tls = True\<rparr>
         (topics (p_user_id p) (device_id d)) (device_id d) (name d)\<rparr>)"
    using assms by (simp add: provision_valid provision_handler_success)
  have "d \<in> set (filter (\<lambda>x. device_token x = Some tok) (devices s))"
    using find_by_token_SomeD(2) [OF assms(3)] by simp
  then have mem: "d \<in> set (devices s)" by simp
  have ex: "\<exists>d' \<in> set (devices (fst (provision e r s))). device_id d' = device_id d"
    unfolding run using mem by (auto simp: update_where_def intro!: bexI [of _ "set_credentials _ _ _ _ _ d"])
  have all: "\<forall>d' \<in> set (devices (fst (provision e r s))).
             device_id d' = device_id d \<longrightarrow>
               is_provisioned d'
             \<and> mqtt_username d' = Some (mqttUsername (p_user_id p) (device_id d))
             \<and> mqtt_password_hash d' = Some (hashPassword (generateSecurePassword e))"
    unfolding run by (auto simp: update_where_def)
  show ?thesis
    using ex all
    by (simp add: run mqttUsername_def remove_hyphens_def length_generateSecurePassword
        url_safe_generateSecurePassword)
qed

text \<open>
  The specification's example: owner \<open>11111111-...\<close>, device \<open>22222222-...\<close>.
\<close>

theorem provision_issues_credentials_witness:
  "status (snd (provision example_env example_request example_store)) = 200
   \<and> body_username (body (snd (provision example_env example_request example_store)))
       = Some ''u_11111111_d_22222222''
   \<and> body_password (body (snd (provision example_env example_request example_store)))
       = Some ''AAECAwQFBgcICQoLDA0ODxAREhMUFRYX''
   \<and> map is_provisioned (devices (fst (provision example_env example_request example_store)))
       = [True]
   \<and> map mqtt_username (devices (fst (provision example_env example_request example_store)))
       = [Some ''u_11111111_d_22222222'']"
proof -
  have h2: "b_device_token example_request = Some (replicate 64 CHR ''a'')"
    by (simp add: example_request_def)
  have h4: "\<not> is_provisioned example_device"
    by (simp add: example_device_def)
  have h5: "\<not> store_fails example_env UpdateCredentials"
    by (simp add: example_env_def)
  have ids: "p_user_id example_project = ''11111111-1111-4111-8111-111111111111''"
    "device_id example_device = ''22222222-2222-4222-8222-222222222222''"
    by (simp_all add: example_project_def example_device_def)
  have devs: "devices example_store = [example_device]"
    by (simp add: example_store_def)
  show ?thesis
    using provision_issues_credentials [OF ex_errors h2 ex_find h4 h5]
    by (simp add: ids ex_pw)
       (simp add: provision_valid [OF ex_errors h2] provision_handler_success [OF ex_find h4 h5]
          update_where_def devs mqttUsername_def remove_hyphens_def ids)
qed

text \<open>
  C1 as stated fails. The example device is unprovisioned and its token is the
  request's, but when the store write reports an error the response is the 500 of the
  \<open>catch\<close> branch; and when the request carries a malformed \<open>mac_address\<close> the
  validators answer 400 before the device is looked up.
\<close>

theorem provision_issues_credentials_counterexample:
  "find_by_token (failing_env UpdateCredentials) example_store (replicate 64 CHR ''a'')
     = Some (example_device, Some example_project)
   \<and> \<not> is_provisioned example_device
   \<and> device_token example_device = b_device_token example_request
   \<and> snd (provision (failing_env UpdateCredentials) example_request example_store)
       = \<lparr>status = 500,
          body = ErrorMessage ''Provisioning failed''
                   ''Internal server error during provisioning''\<rparr>
   \<and> snd (provision example_env (example_request\<lparr>b_mac_address := Some ''zz''\<rparr>) example_store)
       = \<lparr>status = 400, body = ValidationErrors [''mac_address'']\<rparr>"
proof -
  have a: "snd (provision (failing_env UpdateCredentials) example_request example_store)
       = \<lparr>status = 500,
          body = ErrorMessage ''Provisioning failed''
                   ''Internal server error during provisioning''\<rparr>"
    using ex_find_failing [of UpdateCredentials]
    by (simp add: provision_valid [OF ex_errors ex_token] provision_handler_def ex_fresh
        Let_def failing_env_def provisioning_failed_def)
  have b: "snd (provision example_env (example_request\<lparr>b_mac_address := Some ''zz''\<rparr>) example_store)
       = \<lparr>status = 400, body = ValidationErrors [''mac_address'']\<rparr>"
    by (simp add: provision_def provision_errors_def example_request_def is_mac_def
        bad_request_def)
  show ?thesis
    using a b ex_find_failing [of UpdateCredentials]
    by (simp add: ex_fresh) (simp add: example_device_def example_request_def)
qed

text \<open>
  C2, as amended. Under the conditions of C1 for the first call (an unprovisioned
  device the lookup resolves to, a valid request, a store write without error), and a
  second valid request with the same token whose lookup the store answers: the first
  call succeeds with 200; the second returns 409 \<open>Already provisioned\<close>, which differs
  from the 401 of an unknown token; the second call leaves the store exactly as the
  first left it, and the device stays provisioned.
\<close>

theorem provision_twice:
  assumes "provision_errors r1 = []" and "b_device_token r1 = Some tok"
    and "find_by_token e1 s tok = Some (d, Some p)" and "\<not> is_provisioned d"
    and "\<not> store_fails e1 UpdateCredentials"
    and "provision_errors r2 = []" and "b_device_token r2 = Some tok"
    and "\<not> store_fails e2 FindByToken"
  shows "status (snd (provision e1 r1 s)) = 200
       \<and> provision e2 r2 (fst (provision e1 r1 s))
           = (fst (provision e1 r1 s),
              \<lparr>status = 409,
               body = ErrorMessage ''Already provisioned''
                 ''This device has already been provisioned. Use regenerate-token to re-provision.''\<rparr>)
       \<and> list_all (\<lambda>d'. device_id d' = device_id d \<longrightarrow> is_provisioned d')
            (devices (fst (provision e2 r2 (fst (provision e1 r1 s)))))"
proof -
  let ?f = "set_credentials (mqttUsername (p_user_id p) (device_id d))
           (hashPassword (generateSecurePassword e1)) (b_mac_address r1) (b_firmware_version r1)
           (now e1)"
  let ?s1 = "update_where (\<lambda>x. device_id x = device_id d) ?f s"
  have first: "provision e1 r1 s =
     (?s1,
      \<lparr>status = 200,
       body = Provisioned
         \<lparr>host = broker_host e1, port = 8883,
          username = mqttUsername (p_user_id p) (device_id d),
          password = generateSecurePassword e1, client_id = device_id d, use_tls = True\<rparr>
         (topics (p_user_id p) (device_id d)) (device_id d) (name d)\<rparr>)"
    using assms(1-5) by (simp add: provision_valid provision_handler_success)
  have found: "find_by_token e2 ?s1 tok = Some (?f d, Some p)"
    using assms(3) assms(8) by (rule find_after_provision)
  have second: "provision e2 r2 ?s1 =
     (?s1, \<lparr>status = 409,
            body = ErrorMessage ''Already provisioned''
              ''This device has already been provisioned. Use regenerate-token to re-provision.''\<rparr>)"
    using assms(6,7) found
    by (simp add: provision_valid provision_handler_conflict [OF found])
  have "list_all (\<lambda>d'. device_id d' = device_id d \<longrightarrow> is_provisioned d') (devices ?s1)"
    by (auto simp: update_where_def list_all_iff)
  then show ?thesis
    by (simp add: first second)
qed

theorem provision_twice_witness:
  "status (snd (provision example_env example_request example_store)) = 200
   \<and> status (snd (provision example_env example_request
                   (fst (provision example_env example_request example_store)))) = 409
   \<and> fst (provision example_env example_request
           (fst (provision example_env example_request example_store)))
       = fst (provision example_env example_request example_store)"
proof -
  have h5: "\<not> store_fails example_env UpdateCredentials" "\<not> store_fails example_env FindByToken"
    by (simp_all add: example_env_def)
  show ?thesis
    using provision_twice [OF ex_errors ex_token ex_find ex_fresh h5(1) ex_errors ex_token h5(2)]
    by simp
qed

text \<open>
  C2 as stated fails for a device that is already provisioned: both calls return 409
  and none succeeds. It also fails when the store write reports an error: both calls
  return 500.
\<close>

theorem provision_twice_counterexample:
  "status (snd (provision example_env example_request provisioned_store)) = 409
   \<and> status (snd (provision example_env example_request
                   (fst (provision example_env example_request provisioned_store)))) = 409
   \<and> status (snd (provision (failing_env UpdateCredentials) example_request example_store)) = 500
   \<and> status (snd (provision (failing_env UpdateCredentials) example_request
                   (fst (provision (failing_env UpdateCredentials) example_request
                           example_store)))) = 500"
proof -
  have p: "is_provisioned provisioned_device"
    by (simp add: provisioned_device_def)
  have a: "provision example_env example_request provisioned_store
      = (provisioned_store,
         \<lparr>status = 409,
          body = ErrorMessage ''Already provisioned''
            ''This device has already been provisioned. Use regenerate-token to re-provision.''\<rparr>)"
    by (simp add: provision_valid [OF ex_errors ex_token]
        provision_handler_conflict [OF ex_find_provisioned p])
  have b: "provision (failing_env UpdateCredentials) example_request example_store
      = (example_store, provisioning_failed)"
    using ex_find_failing [of UpdateCredentials]
    by (simp add: provision_valid [OF ex_errors ex_token] provision_handler_def ex_fresh
        Let_def failing_env_def)
  show ?thesis
    by (simp add: a b) (simp add: provisioning_failed_def)
qed

text \<open>
  C3. A device satisfies the invariant when \<open>is_provisioned\<close> is true exactly if
  \<open>mqtt_username\<close> and \<open>mqtt_password_hash\<close> are both non-null. Every request to the
  application (provisioning, list, get, create, update, delete, token regeneration, with
  any outcome) takes a store in which every device satisfies the invariant to such a
  store. A successful provisioning rewrites the rows of the device found, and only
  those, in one update that sets \<open>mqtt_username\<close>, \<open>mqtt_password_hash\<close> and
  \<open>is_provisioned = true\<close> together (with the metadata and the timestamp), so that
  afterwards the device is provisioned with both fields non-null; a provisioning that
  does not answer 200 writes nothing. A successful token regeneration rewrites the rows
  the caller's client selects, and only those, in one update that sets the new token,
  \<open>is_provisioned = false\<close> and both broker fields to null; a regeneration that does not
  answer 200 writes nothing. Either update yields a row that satisfies the invariant
  whatever the row was before.
\<close>

theorem provisioned_iff_credentials:
  "(store_inv s \<longrightarrow> store_inv (fst (app e r s)))
   \<and> (provision_errors rp = [] \<and> b_device_token rp = Some tok
        \<and> find_by_token ep sp tok = Some (d, Some p) \<and> \<not> is_provisioned d
        \<and> \<not> store_fails ep UpdateCredentials
      \<longrightarrow> devices (fst (provision ep rp sp))
            = map (\<lambda>x. if device_id x = device_id d
                        then x\<lparr>mqtt_username := Some (mqttUsername (p_user_id p) (device_id d)),
                               mqtt_password_hash
                                 := Some (hashPassword (generateSecurePassword ep)),
                               mac_address := (case b_mac_address rp of
                                                 None \<Rightarrow> mac_address x | Some m \<Rightarrow> Some m),
                               firmware_version := (case b_firmware_version rp of
                                                 None \<Rightarrow> firmware_version x | Some v \<Rightarrow> Some v),
                               is_provisioned := True,
                               provisioned_at := Some (now ep)\<rparr>
                        else x) (devices sp)
        \<and> list_ex (\<lambda>x. device_id x = device_id d) (devices (fst (provision ep rp sp)))
        \<and> list_all (\<lambda>x. device_id x = device_id d
                          \<longrightarrow> is_provisioned x \<and> mqtt_username x \<noteq> None
                            \<and> mqtt_password_hash x \<noteq> None)
            (devices (fst (provision ep rp sp))))
   \<and> (status (snd (provision ep rp sp)) \<noteq> 200 \<longrightarrow> fst (provision ep rp sp) = sp)
   \<and> (isUUID (param_id rr) \<and> filter (selected c (param_id rr)) (devices sr) = [dv]
        \<and> \<not> store_fails er UpdateToken
      \<longrightarrow> devices (fst (regenerate_token c er rr sr))
            = map (\<lambda>x. if selected c (param_id rr) x
                        then x\<lparr>device_token := generate_device_token er,
                               is_provisioned := False,
                               mqtt_username := None,
                               mqtt_password_hash := None\<rparr>
                        else x) (devices sr)
        \<and> dv\<lparr>device_token := generate_device_token er, is_provisioned := False,
               mqtt_username := None, mqtt_password_hash := None\<rparr>
            \<in> set (devices (fst (regenerate_token c er rr sr))))
   \<and> (status (snd (regenerate_token c er rr sr)) \<noteq> 200
      \<longrightarrow> fst (regenerate_token c er rr sr) = sr)
   \<and> device_inv (set_credentials uname pwhash mac fw at d0)
   \<and> device_inv (reset_token newToken d0)"
proof -
  have pres: "store_inv s \<longrightarrow> store_inv (fst (app e r s))"
    by (simp add: app_def store_inv_provision store_inv_devices_router split: route.splits)
  have prov: "devices (fst (provision ep rp sp))
            = map (\<lambda>x. if device_id x = device_id d
                        then x\<lparr>mqtt_username := Some (mqttUsername (p_user_id p) (device_id d)),
                               mqtt_password_hash
                                 := Some (hashPassword (generateSecurePassword ep)),
                               mac_address := (case b_mac_address rp of
                                                 None \<Rightarrow> mac_address x | Some m \<Rightarrow> Some m),
                               firmware_version := (case b_firmware_version rp of
                                                 None \<Rightarrow> firmware_version x | Some v \<Rightarrow> Some v),
                               is_provisioned := True,
                               provisioned_at := Some (now ep)\<rparr>
                        else x) (devices sp)
        \<and> list_ex (\<lambda>x. device_id x = device_id d) (devices (fst (provision ep rp sp)))
        \<and> list_all (\<lambda>x. device_id x = device_id d
                          \<longrightarrow> is_provisioned x \<and> mqtt_username x \<noteq> None
                            \<and> mqtt_password_hash x \<noteq> None)
            (devices (fst (provision ep rp sp)))"
    if h: "provision_errors rp = [] \<and> b_device_token rp = Some tok
        \<and> find_by_token ep sp tok = Some (d, Some p) \<and> \<not> is_provisioned d
        \<and> \<not> store_fails ep UpdateCredentials"
  proof -
    from h have found: "find_by_token ep sp tok = Some (d, Some p)"
      and fresh: "\<not> is_provisioned d" and ok: "\<not> store_fails ep UpdateCredentials"
      and valid: "provision_errors rp = []" "b_device_token rp = Some tok"
      by simp_all
    have run: "fst (provision ep rp sp)
        = update_where (\<lambda>x. device_id x = device_id d)
            (set_credentials (mqttUsername (p_user_id p) (device_id d))
               (hashPassword (generateSecurePassword ep)) (b_mac_address rp)
               (b_firmware_version rp) (now ep)) sp"
      by (simp add: provision_valid [OF valid] provision_handler_success [OF found fresh ok])
    have "d \<in> set (filter (\<lambda>x. device_token x = Some tok) (devices sp))"
      using find_by_token_SomeD(2) [OF found] by simp
    then have mem: "d \<in> set (devices sp)" by simp
    have eq: "devices (fst (provision ep rp sp))
            = map (\<lambda>x. if device_id x = device_id d
                        then x\<lparr>mqtt_username := Some (mqttUsername (p_user_id p) (device_id d)),
                               mqtt_password_hash
                                 := Some (hashPassword (generateSecurePassword ep)),
                               mac_address := (case b_mac_address rp of
                                                 None \<Rightarrow> mac_address x | Some m \<Rightarrow> Some m),
                               firmware_version := (case b_firmware_version rp of
                                                 None \<Rightarrow> firmware_version x | Some v \<Rightarrow> Some v),
                               is_provisioned := True,
                               provisioned_at := Some (now ep)\<rparr>
                        else x) (devices sp)"
      by (simp add: run update_where_def set_credentials_def)
    have ex: "list_ex (\<lambda>x. device_id x = device_id d) (devices (fst (provision ep rp sp)))"
    proof -
      have ids: "map device_id (devices (fst (provision ep rp sp))) = map device_id (devices sp)"
        by (simp add: eq)
      have "device_id d \<in> set (map device_id (devices sp))"
        using mem by simp
      then have "device_id d \<in> set (map device_id (devices (fst (provision ep rp sp))))"
        by (simp only: ids)
      then show ?thesis
        by (auto simp: list_ex_iff)
    qed
    have all: "list_all (\<lambda>x. device_id x = device_id d
                          \<longrightarrow> is_provisioned x \<and> mqtt_username x \<noteq> None
                            \<and> mqtt_password_hash x \<noteq> None)
            (devices (fst (provision ep rp sp)))"
      unfolding eq list_all_iff by auto
    show ?thesis using eq ex all by blast
  qed
  have regen: "devices (fst (regenerate_token c er rr sr))
            = map (\<lambda>x. if selected c (param_id rr) x
                        then x\<lparr>device_token := generate_device_token er,
                               is_provisioned := False,
                               mqtt_username := None,
                               mqtt_password_hash := None\<rparr>
                        else x) (devices sr)
        \<and> dv\<lparr>device_token := generate_device_token er, is_provisioned := False,
               mqtt_username := None, mqtt_password_hash := None\<rparr>
            \<in> set (devices (fst (regenerate_token c er rr sr)))"
    if h: "isUUID (param_id rr) \<and> filter (selected c (param_id rr)) (devices sr) = [dv]
        \<and> \<not> store_fails er UpdateToken"
  proof -
    have eq: "devices (fst (regenerate_token c er rr sr))
            = map (\<lambda>x. if selected c (param_id rr) x
                        then x\<lparr>device_token := generate_device_token er,
                               is_provisioned := False,
                               mqtt_username := None,
                               mqtt_password_hash := None\<rparr>
                        else x) (devices sr)"
      using h by (simp add: regenerate_token_def Let_def update_where_def reset_token_def)
    have "dv \<in> set (filter (selected c (param_id rr)) (devices sr))"
      using h by simp
    then have "dv \<in> set (devices sr)" "selected c (param_id rr) dv"
      by simp_all
    then have "dv\<lparr>device_token := generate_device_token er, is_provisioned := False,
               mqtt_username := None, mqtt_password_hash := None\<rparr>
            \<in> set (devices (fst (regenerate_token c er rr sr)))"
      unfolding eq by force
    with eq show ?thesis by blast
  qed
  show ?thesis
    using pres prov regen provision_failure_keeps_store [of ep rp sp]
      regenerate_failure_keeps_store [of c er rr sr]
      device_inv_set_credentials [of uname pwhash mac fw at d0]
      device_inv_reset_token [of newToken d0]
    by blast
qed

theorem provisioned_iff_credentials_witness:
  "store_inv example_store
   \<and> store_inv (fst (app example_env example_request example_store))
   \<and> devices (fst (provision example_env example_request example_store))
       = [example_device\<lparr>mqtt_username := Some ''u_11111111_d_22222222'',
            mqtt_password_hash := Some (hashPassword ''AAECAwQFBgcICQoLDA0ODxAREhMUFRYX''),
            mac_address := Some ''AA:BB:CC:DD:EE:FF'',
            firmware_version := Some ''1.0.0'',
            is_provisioned := True,
            provisioned_at := Some ''2026-01-01T00:00:00.000Z''\<rparr>]
   \<and> store_inv provisioned_store
   \<and> devices (fst (regenerate_token example_client example_env example_request
                      provisioned_store))
       = [provisioned_device\<lparr>device_token := Some (replicate 64 CHR ''b''),
            is_provisioned := False, mqtt_username := None, mqtt_password_hash := None\<rparr>]
   \<and> status (snd (provision example_env example_request provisioned_store)) = 409
   \<and> fst (provision example_env example_request provisioned_store) = provisioned_store"
proof -
  have a: "store_inv example_store"
    by (simp add: store_inv_def device_inv_def example_store_def example_device_def)
  have b: "store_inv provisioned_store"
    by (simp add: store_inv_def device_inv_def example_defs)
  have ok: "\<not> store_fails example_env UpdateCredentials" "\<not> store_fails example_env UpdateToken"
    by (simp_all add: example_env_def)
  have p: "is_provisioned provisioned_device"
    by (simp add: provisioned_device_def)
  have st: "status (snd (provision example_env example_request provisioned_store)) = 409"
    by (simp add: provision_valid [OF ex_errors ex_token]
        provision_handler_conflict [OF ex_find_provisioned p])
  have ev: "devices example_store = [example_device]"
    "devices provisioned_store = [provisioned_device]"
    "device_id example_device = ''22222222-2222-4222-8222-222222222222''"
    "p_user_id example_project = ''11111111-1111-4111-8111-111111111111''"
    "b_mac_address example_request = Some ''AA:BB:CC:DD:EE:FF''"
    "b_firmware_version example_request = Some ''1.0.0''"
    "now example_env = ''2026-01-01T00:00:00.000Z''"
    "generate_device_token example_env = Some (replicate 64 CHR ''b'')"
    "selected example_client (param_id example_request) provisioned_device"
    by (simp_all add: example_defs mqttUsername_def remove_hyphens_def selected_def)
  show ?thesis
    using a b st
      provisioned_iff_credentials [of example_store example_env example_request
        example_request "replicate 64 CHR ''a''" example_env example_store example_device
        example_project example_request example_client provisioned_store provisioned_device
        example_env "[]" "[]" None None "[]" example_device None]
      provisioned_iff_credentials [of example_store example_env example_request
        example_request "replicate 64 CHR ''a''" example_env provisioned_store example_device
        example_project example_request example_client provisioned_store provisioned_device
        example_env "[]" "[]" None None "[]" example_device None]
    by (simp add: ex_errors ex_token ex_find ex_fresh ok ex_uuid ex_selected ev ex_pw
        mqttUsername_def remove_hyphens_def)
qed

text \<open>
  C4. When the store write of the provisioning route reports an error, no response of
  the route carries a password, the status is never 200 and the store is unchanged; and
  when the write was reached (a valid request, a lookup that resolved to an
  unprovisioned device with its project) the response is the 500 \<open>Provisioning failed\<close>:
  the success response is built only after the update was seen to report no error.
  Conversely, whenever a response of the route carries a password, the write reported
  no error and the store holds a provisioned row with the hash of that password.
\<close>

theorem provision_write_failure:
  assumes "store_fails e UpdateCredentials"
  shows "body_password (body (snd (provision e r s))) = None
       \<and> status (snd (provision e r s)) \<noteq> 200
       \<and> fst (provision e r s) = s
       \<and> (provision_errors r = [] \<and> b_device_token r = Some tok
            \<and> find_by_token e s tok = Some (d, Some p) \<and> \<not> is_provisioned d
          \<longrightarrow> snd (provision e r s)
                = \<lparr>status = 500,
                   body = ErrorMessage ''Provisioning failed''
                            ''Internal server error during provisioning''\<rparr>)
       \<and> (body_password (body (snd (provision e' r' s'))) = Some pw
          \<longrightarrow> \<not> store_fails e' UpdateCredentials
            \<and> (\<exists>d' \<in> set (devices (fst (provision e' r' s'))).
                  is_provisioned d' \<and> mqtt_password_hash d' = Some (hashPassword pw)))"
proof -
  have failing: "body_password (body (snd (provision e r s))) = None
       \<and> status (snd (provision e r s)) \<noteq> 200
       \<and> fst (provision e r s) = s
       \<and> (provision_errors r = [] \<and> b_device_token r = Some tok
            \<and> find_by_token e s tok = Some (d, Some p) \<and> \<not> is_provisioned d
          \<longrightarrow> snd (provision e r s)
                = \<lparr>status = 500,
                   body = ErrorMessage ''Provisioning failed''
                            ''Internal server error during provisioning''\<rparr>)"
    using assms
    by (auto simp: provision_def provision_handler_def bad_request_def provisioning_failed_def
        Let_def split: option.splits prod.splits)
  have sent: "\<not> store_fails e' UpdateCredentials
            \<and> (\<exists>d' \<in> set (devices (fst (provision e' r' s'))).
                  is_provisioned d' \<and> mqtt_password_hash d' = Some (hashPassword pw))"
    if pw: "body_password (body (snd (provision e' r' s'))) = Some pw"
  proof -
    from pw obtain tok' where tok': "b_device_token r' = Some tok'" "provision_errors r' = []"
      by (auto simp: provision_def bad_request_def split: option.splits if_splits)
    with pw have h: "body_password (body (snd (provision_handler e' tok' (b_mac_address r')
        (b_firmware_version r') s'))) = Some pw"
      by (simp add: provision_def)
    then obtain dv pr where found: "find_by_token e' s' tok' = Some (dv, Some pr)"
      and fresh: "\<not> is_provisioned dv" and ok: "\<not> store_fails e' UpdateCredentials"
      by (auto simp: provision_handler_def provisioning_failed_def Let_def
          split: option.splits prod.splits if_splits)
    have run: "provision e' r' s' = provision_handler e' tok' (b_mac_address r')
        (b_firmware_version r') s'"
      using tok' by (simp add: provision_valid)
    have eq: "pw = generateSecurePassword e'"
      using h by (simp add: provision_handler_success [OF found fresh ok])
    have "dv \<in> set (filter (\<lambda>x. device_token x = Some tok') (devices s'))"
      using find_by_token_SomeD(2) [OF found] by simp
    then have mem: "dv \<in> set (devices s')" by simp
    let ?f = "set_credentials (mqttUsername (p_user_id pr) (device_id dv))
        (hashPassword (generateSecurePassword e')) (b_mac_address r') (b_firmware_version r')
        (now e')"
    have "?f dv \<in> set (devices (fst (provision e' r' s')))"
      using mem by (force simp: run provision_handler_success [OF found fresh ok] update_where_def)
    moreover have "is_provisioned (?f dv) \<and> mqtt_password_hash (?f dv) = Some (hashPassword pw)"
      by (simp add: eq)
    ultimately show ?thesis using ok by blast
  qed
  show ?thesis using failing sent by blast
qed

theorem provision_write_failure_witness:
  "store_fails (failing_env UpdateCredentials) UpdateCredentials
   \<and> provision (failing_env UpdateCredentials) example_request example_store
       = (example_store,
          \<lparr>status = 500,
           body = ErrorMessage ''Provisioning failed''
                    ''Internal server error during provisioning''\<rparr>)
   \<and> body_password (body (snd (provision (failing_env UpdateCredentials) example_request
                                  example_store))) = None
   \<and> body_password (body (snd (provision example_env example_request example_store)))
       = Some ''AAECAwQFBgcICQoLDA0ODxAREhMUFRYX''
   \<and> \<not> store_fails example_env UpdateCredentials"
proof -
  have f: "store_fails (failing_env UpdateCredentials) UpdateCredentials"
    by (simp add: failing_env_def)
  have g: "find_by_token (failing_env UpdateCredentials) example_store (replicate 64 CHR ''a'')
     = Some (example_device, Some example_project)"
    by (rule ex_find_failing) simp
  have ok: "\<not> store_fails example_env UpdateCredentials"
    by (simp add: example_env_def)
  have sent: "body_password (body (snd (provision example_env example_request example_store)))
       = Some ''AAECAwQFBgcICQoLDA0ODxAREhMUFRYX''"
    by (simp add: provision_valid [OF ex_errors ex_token]
        provision_handler_success [OF ex_find ex_fresh ok] ex_pw)
  show ?thesis
    using f sent provision_write_failure [OF f, of example_request example_store
        "replicate 64 CHR ''a''" example_device example_project example_env example_request
        example_store "''AAECAwQFBgcICQoLDA0ODxAREhMUFRYX''"]
    by (simp add: ex_errors ex_token g ex_fresh prod_eq_iff)
qed




text \<open>
  C6. The topic patterns are a function of the owner's user id and the device id
  alone: \<open>u/{ownerId}/d/{deviceId}/cmd/#\<close>, \<open>u/{ownerId}/d/{deviceId}/state/\<close> and
  \<open>u/{ownerId}/d/{deviceId}/tel/\<close>. A successful provisioning response carries exactly
  these patterns for the device found and its owner, and whenever a response carries
  topic patterns at all they are these, whatever the token, the credentials, the
  random bytes, the clock or the rest of the store. Token regeneration changes neither
  the device id nor the project of the device nor the projects table, so the patterns
  are the same in every provisioning epoch.
\<close>

theorem topics_from_identifiers:
  "topics ownerId deviceId
     = \<lparr>subscribe = ''u/'' @ ownerId @ ''/d/'' @ deviceId @ ''/cmd/#'',
        state_prefix = ''u/'' @ ownerId @ ''/d/'' @ deviceId @ ''/state/'',
        telemetry_prefix = ''u/'' @ ownerId @ ''/d/'' @ deviceId @ ''/tel/''\<rparr>
   \<and> (find_by_token e s tok = Some (d, Some p) \<and> \<not> is_provisioned d
        \<and> \<not> store_fails e UpdateCredentials
      \<longrightarrow> body_topics (body (snd (provision_handler e tok mac fw s)))
            = Some (topics (p_user_id p) (device_id d)))
   \<and> (find_by_token e s tok = Some (d, Some p)
        \<and> body_topics (body (snd (provision_handler e tok mac fw s))) = Some t
      \<longrightarrow> t = topics (p_user_id p) (device_id d))
   \<and> device_id (reset_token newToken d) = device_id d
   \<and> project_id (reset_token newToken d) = project_id d
   \<and> projects (fst (regenerate_token c e' r s')) = projects s'"
proof -
  have a: "topics ownerId deviceId
     = \<lparr>subscribe = ''u/'' @ ownerId @ ''/d/'' @ deviceId @ ''/cmd/#'',
        state_prefix = ''u/'' @ ownerId @ ''/d/'' @ deviceId @ ''/state/'',
        telemetry_prefix = ''u/'' @ ownerId @ ''/d/'' @ deviceId @ ''/tel/''\<rparr>"
    by (simp add: topics_def topicBase_def)
  have b: "find_by_token e s tok = Some (d, Some p) \<and> \<not> is_provisioned d
        \<and> \<not> store_fails e UpdateCredentials
      \<longrightarrow> body_topics (body (snd (provision_handler e tok mac fw s)))
            = Some (topics (p_user_id p) (device_id d))"
    by (simp add: provision_handler_success)
  have c: "find_by_token e s tok = Some (d, Some p)
        \<and> body_topics (body (snd (provision_handler e tok mac fw s))) = Some t
      \<longrightarrow> t = topics (p_user_id p) (device_id d)"
    by (auto simp: provision_handler_def Let_def provisioning_failed_def split: if_splits)
  have d: "device_id (reset_token newToken d) = device_id d
      \<and> project_id (reset_token newToken d) = project_id d"
    by (simp add: reset_token_def)
  have e: "projects (fst (regenerate_token c e' r s')) = projects s'"
    by (simp add: regenerate_token_def Let_def update_where_def split: list.splits)
  show ?thesis using a b c d e by blast
qed

theorem topics_from_identifiers_witness:
  "body_topics (body (snd (provision_handler example_env (replicate 64 CHR ''a'') None None
                             example_store)))
     = Some \<lparr>subscribe = ''u/11111111-1111-4111-8111-111111111111/d/22222222-2222-4222-8222-222222222222/cmd/#'',
             state_prefix = ''u/11111111-1111-4111-8111-111111111111/d/22222222-2222-4222-8222-222222222222/state/'',
             telemetry_prefix = ''u/11111111-1111-4111-8111-111111111111/d/22222222-2222-4222-8222-222222222222/tel/''\<rparr>"
proof -
  have h5: "\<not> store_fails example_env UpdateCredentials"
    by (simp add: example_env_def)
  have ids: "p_user_id example_project = ''11111111-1111-4111-8111-111111111111''"
    "device_id example_device = ''22222222-2222-4222-8222-222222222222''"
    by (simp_all add: example_project_def example_device_def)
  show ?thesis
    using topics_from_identifiers [of "p_user_id example_project" "device_id example_device"
        example_env example_store "replicate 64 CHR ''a''" example_device example_project
        None None]
    by (simp add: ex_find ex_fresh h5 ids)
qed

text \<open>
  C7. A response of the provisioning route carries a password only with status 200; its
  other statuses are 400, 401, 409 and 500; no response of a device route carries a
  password. No response of the application, for any
  request, store and environment, carries a string in a member \<open>mqtt_password_hash\<close> of a
  device row: the list, get and update routes leave the member out together with
  \<open>device_token\<close>, the create route leaves it out, and token regeneration answers with the
  row it has just written, in which the member is \<open>null\<close>. (The project routes are not
  part of this development; they select project columns and a device count only.)
\<close>

theorem secrets_stay_out_of_responses:
  "(status (snd (provision e r s)) \<noteq> 200 \<longrightarrow> body_password (body (snd (provision e r s))) = None)
   \<and> status (snd (provision e r s)) \<in> {200, 400, 401, 409, 500}
   \<and> body_password (body (snd (devices_router e dr r s))) = None
   \<and> \<not> exposes_hash (snd (app e r s))
   \<and> \<not> exposes_hash (snd (list_devices c e r s))
   \<and> \<not> exposes_hash (snd (get_device c e r s))
   \<and> \<not> exposes_hash (snd (create_device c e r s))
   \<and> \<not> exposes_hash (snd (update_device c e r s))
   \<and> \<not> exposes_hash (snd (regenerate_token c e r s))"
  using password_only_on_success [of e r s] provision_statuses [of e r s]
  by (auto simp: app_def no_password_devices_router
      hash_hidden_provision hash_hidden_devices_router hash_hidden_list
      hash_hidden_get hash_hidden_create hash_hidden_update hash_hidden_regenerate
      split: route.splits)

theorem secrets_stay_out_of_responses_witness:
  "status (snd (provision example_env example_request provisioned_store)) = 409
   \<and> body_password (body (snd (provision example_env example_request provisioned_store))) = None"
proof -
  have p: "is_provisioned provisioned_device"
    by (simp add: provisioned_device_def)
  have a: "status (snd (provision example_env example_request provisioned_store)) = 409"
    by (simp add: provision_valid [OF ex_errors ex_token]
        provision_handler_conflict [OF ex_find_provisioned p])
  show ?thesis
    using a secrets_stay_out_of_responses [of example_env example_request provisioned_store]
    by simp
qed

text \<open>
  C8, as amended. For every request that passes the validators of the provisioning
  route (a \<open>device_token\<close> of 64 characters; a \<open>mac_address\<close>, if any, of the six-octet
  form) and whose token no device of the store carries, the application answers 401
  \<open>Invalid device token\<close> and leaves the store unchanged, in every environment, and
  whatever \<open>Authorization\<close> header the request has or lacks: the route is mounted without
  \<open>authenticate\<close>. A request the validators reject is answered 400, and the store is
  unchanged as well.
\<close>

theorem provision_unknown_token:
  assumes "provision_errors r = []" and "b_device_token r = Some tok"
    and "\<forall>d \<in> set (devices s). device_token d \<noteq> Some tok"
  shows "length tok = 64
       \<and> app e (r\<lparr>route := POST_provision, authorization := a\<rparr>) s
           = (s, \<lparr>status = 401,
                  body = ErrorMessage ''Invalid device token''
                           ''Device not found or token is incorrect''\<rparr>)
       \<and> (provision_errors r' \<noteq> []
          \<longrightarrow> app e (r'\<lparr>route := POST_provision, authorization := a\<rparr>) s
                = (s, \<lparr>status = 400, body = ValidationErrors (provision_errors r')\<rparr>))"
proof -
  let ?r = "r\<lparr>route := POST_provision, authorization := a\<rparr>"
  have len: "length tok = 64"
    using assms(1,2) by (auto simp: provision_errors_def split: if_splits)
  have "provision_errors ?r = []" "b_device_token ?r = Some tok"
    using assms(1,2) by (simp_all add: provision_errors_def)
  then have "provision e ?r s = provision_handler e tok (b_mac_address ?r) (b_firmware_version ?r) s"
    by (rule provision_valid)
  moreover have "find_by_token e s tok = None"
    using assms(3) by (rule find_by_token_NoneI)
  moreover have "provision_errors (r'\<lparr>route := POST_provision, authorization := a\<rparr>)
      = provision_errors r'"
    by (simp add: provision_errors_def)
  ultimately show ?thesis
    using len by (simp add: app_def provision_handler_unknown provision_invalid bad_request_def)
qed

theorem provision_unknown_token_witness:
  "app example_env (unknown_request\<lparr>route := POST_provision, authorization := None\<rparr>) example_store
     = (example_store,
        \<lparr>status = 401,
         body = ErrorMessage ''Invalid device token''
                  ''Device not found or token is incorrect''\<rparr>)
   \<and> app example_env
        (unknown_request\<lparr>route := POST_provision, authorization := Some ''Bearer jwt''\<rparr>)
        example_store
     = (example_store,
        \<lparr>status = 401,
         body = ErrorMessage ''Invalid device token''
                  ''Device not found or token is incorrect''\<rparr>)"
proof -
  have h1: "provision_errors unknown_request = []"
    by (simp add: provision_errors_def unknown_request_def example_request_def is_mac_def
        is_hex_def)
  have h2: "b_device_token unknown_request = Some (replicate 64 CHR ''c'')"
    by (simp add: unknown_request_def)
  have h3: "\<forall>d \<in> set (devices example_store). device_token d \<noteq> Some (replicate 64 CHR ''c'')"
    using replicate_64_a_neq_c by (simp add: example_store_def example_device_def)
  show ?thesis
    using provision_unknown_token [OF h1 h2 h3, of example_env None]
      provision_unknown_token [OF h1 h2 h3, of example_env "Some ''Bearer jwt''"]
    by simp
qed

text \<open>
  C8 as stated fails for a request whose 64-character token is unknown and whose
  \<open>mac_address\<close> is malformed: the validators answer 400, not 401 (the store is
  unchanged all the same).
\<close>

theorem provision_unknown_token_counterexample:
  "b_device_token (unknown_request\<lparr>b_mac_address := Some ''zz''\<rparr>)
     = Some (replicate 64 CHR ''c'')
   \<and> length (replicate 64 CHR ''c'') = 64
   \<and> map device_token (devices example_store) = [Some (replicate 64 CHR ''a'')]
   \<and> replicate 64 CHR ''a'' \<noteq> replicate 64 CHR ''c''
   \<and> app example_env (unknown_request\<lparr>b_mac_address := Some ''zz''\<rparr>) example_store
       = (example_store, \<lparr>status = 400, body = ValidationErrors [''mac_address'']\<rparr>)"
  using replicate_64_a_neq_c
  by (simp add: unknown_request_def example_request_def example_store_def example_device_def
      app_def provision_def provision_errors_def is_mac_def bad_request_def)

text \<open>
  C9. \<open>hashPassword\<close> is a function of the password alone (equal inputs give equal
  digests). Its result has 64 characters, all of them lower-case hexadecimal digits, so
  a string can equal its own hash only if it is itself such a string; in particular the
  hash differs from every password \<open>generateSecurePassword\<close> returns, which has 32
  characters. On a successful provisioning the hash stored is \<open>hashPassword\<close> of the
  password sent, and is not that password.
\<close>

theorem hashPassword_deterministic:
  "(p = q \<longrightarrow> hashPassword p = hashPassword q)
   \<and> length (hashPassword p) = 64
   \<and> (hashPassword p = p \<longrightarrow> length p = 64 \<and> set p \<subseteq> set ''0123456789abcdef'')
   \<and> hashPassword (generateSecurePassword e) \<noteq> generateSecurePassword e
   \<and> (find_by_token e s tok = Some (d, Some pr) \<and> \<not> is_provisioned d
        \<and> \<not> store_fails e UpdateCredentials
      \<longrightarrow> body_password (body (snd (provision_handler e tok mac fw s)))
            = Some (generateSecurePassword e)
        \<and> list_all (\<lambda>d'. device_id d' = device_id d
                          \<longrightarrow> mqtt_password_hash d' = Some (hashPassword (generateSecurePassword e))
                            \<and> mqtt_password_hash d' \<noteq> Some (generateSecurePassword e))
            (devices (fst (provision_handler e tok mac fw s))))"
proof -
  have len: "length (hashPassword x) = 64" for x
    by (rule length_hashPassword)
  have ne: "length x \<noteq> 64 \<Longrightarrow> hashPassword x \<noteq> x" for x
    using len [of x] by auto
  have fixed: "hashPassword p = p \<longrightarrow> length p = 64 \<and> set p \<subseteq> set ''0123456789abcdef''"
    using len [of p] set_hashPassword [of p] by auto
  have gen: "hashPassword (generateSecurePassword e) \<noteq> generateSecurePassword e"
    by (rule ne) (simp add: length_generateSecurePassword)
  have stored: "find_by_token e s tok = Some (d, Some pr) \<and> \<not> is_provisioned d
        \<and> \<not> store_fails e UpdateCredentials
      \<longrightarrow> body_password (body (snd (provision_handler e tok mac fw s)))
            = Some (generateSecurePassword e)
        \<and> list_all (\<lambda>d'. device_id d' = device_id d
                          \<longrightarrow> mqtt_password_hash d' = Some (hashPassword (generateSecurePassword e))
                            \<and> mqtt_password_hash d' \<noteq> Some (generateSecurePassword e))
            (devices (fst (provision_handler e tok mac fw s)))"
    using gen by (auto simp: provision_handler_success update_where_def list_all_iff)
  show ?thesis using len fixed gen stored by blast
qed

theorem hashPassword_deterministic_witness:
  "hashPassword ''AAECAwQFBgcICQoLDA0ODxAREhMUFRYX'' \<noteq> ''AAECAwQFBgcICQoLDA0ODxAREhMUFRYX''
   \<and> length (hashPassword ''AAECAwQFBgcICQoLDA0ODxAREhMUFRYX'') = 64
   \<and> body_password (body (snd (provision_handler example_env (replicate 64 CHR ''a'') None None
                                  example_store)))
       = Some ''AAECAwQFBgcICQoLDA0ODxAREhMUFRYX''
   \<and> map mqtt_password_hash
        (devices (fst (provision_handler example_env (replicate 64 CHR ''a'') None None
                         example_store)))
       = [Some (hashPassword ''AAECAwQFBgcICQoLDA0ODxAREhMUFRYX'')]"
proof -
  have h5: "\<not> store_fails example_env UpdateCredentials"
    by (simp add: example_env_def)
  have d: "devices example_store = [example_device]"
    by (simp add: example_store_def)
  show ?thesis
    using hashPassword_deterministic [of "''AAECAwQFBgcICQoLDA0ODxAREhMUFRYX''"
        "''AAECAwQFBgcICQoLDA0ODxAREhMUFRYX''" example_env example_store
        "replicate 64 CHR ''a''" example_device example_project None None]
    by (simp add: ex_find ex_fresh h5 ex_pw)
       (simp add: provision_handler_success [OF ex_find ex_fresh h5] update_where_def d ex_pw)
qed

text \<open>
  C10. For every request, client, environment and store, the update route leaves the
  devices in place and in order, and each keeps its \<open>id\<close>, \<open>project_id\<close>,
  \<open>device_token\<close>, \<open>is_provisioned\<close>, \<open>mqtt_username\<close>, \<open>mqtt_password_hash\<close>,
  \<open>mac_address\<close>, \<open>firmware_version\<close>, \<open>provisioned_at\<close> and \<open>created_at\<close>: only \<open>name\<close>
  and \<open>hardware_type\<close> can differ. The projects and the channels are unchanged. A
  request with neither \<open>name\<close> nor \<open>hardware_type\<close> is answered 400 and the store is
  unchanged.
\<close>

theorem update_device_frame:
  "list_all2
     (\<lambda>d d'. device_id d' = device_id d \<and> project_id d' = project_id d
            \<and> device_token d' = device_token d \<and> is_provisioned d' = is_provisioned d
            \<and> mqtt_username d' = mqtt_username d
            \<and> mqtt_password_hash d' = mqtt_password_hash d
            \<and> mac_address d' = mac_address d \<and> firmware_version d' = firmware_version d
            \<and> provisioned_at d' = provisioned_at d \<and> created_at d' = created_at d)
     (devices s) (devices (fst (update_device c e r s)))
   \<and> projects (fst (update_device c e r s)) = projects s
   \<and> device_channels (fst (update_device c e r s)) = device_channels s
   \<and> (b_name r = None \<and> b_hardware_type r = None
      \<longrightarrow> status (snd (update_device c e r s)) = 400 \<and> fst (update_device c e r s) = s)"
proof -
  let ?P = "\<lambda>d d'. device_id d' = device_id d \<and> project_id d' = project_id d
            \<and> device_token d' = device_token d \<and> is_provisioned d' = is_provisioned d
            \<and> mqtt_username d' = mqtt_username d
            \<and> mqtt_password_hash d' = mqtt_password_hash d
            \<and> mac_address d' = mac_address d \<and> firmware_version d' = firmware_version d
            \<and> provisioned_at d' = provisioned_at d \<and> created_at d' = created_at d"
  have same: "list_all2 ?P (devices s) (devices s)"
    by (rule list_all2_refl) simp
  have upd: "list_all2 ?P (devices s)
      (map (\<lambda>d. if selected c (param_id r) d
                 then apply_updates (truthy (b_name r)) (truthy (b_hardware_type r)) d else d)
           (devices s))"
    by (rule list_all2_map_self) (simp add: apply_updates_def)
  have frame: "list_all2 ?P (devices s) (devices (fst (update_device c e r s)))"
    using same upd by (simp add: update_device_def update_where_def split: list.splits)
  have rest: "projects (fst (update_device c e r s)) = projects s
      \<and> device_channels (fst (update_device c e r s)) = device_channels s"
    by (simp add: update_device_def update_where_def split: list.splits)
  have none: "b_name r = None \<and> b_hardware_type r = None
      \<longrightarrow> status (snd (update_device c e r s)) = 400 \<and> fst (update_device c e r s) = s"
    by (simp add: update_device_def truthy_def bad_request_def)
  show ?thesis using frame rest none by blast
qed

theorem update_device_frame_witness:
  "b_name example_request = None \<and> b_hardware_type example_request = None
   \<and> status (snd (update_device example_client example_env example_request provisioned_store)) = 400
   \<and> fst (update_device example_client example_env example_request provisioned_store)
       = provisioned_store
   \<and> devices (fst (update_device example_client example_env
        (example_request\<lparr>b_name := Some '' Kitchen Plug ''\<rparr>) provisioned_store))
       = [provisioned_device\<lparr>name := ''Kitchen Plug''\<rparr>]"
proof -
  have n: "b_name example_request = None \<and> b_hardware_type example_request = None"
    by (simp add: example_request_def)
  have u: "devices (fst (update_device example_client example_env
        (example_request\<lparr>b_name := Some '' Kitchen Plug ''\<rparr>) provisioned_store))
       = [provisioned_device\<lparr>name := ''Kitchen Plug''\<rparr>]"
    using ex_uuid ex_selected
    by (simp add: update_device_def update_errors_def in_name_range_def truthy_def trim_def
        is_space_def update_where_def apply_updates_def)
       (simp add: example_defs selected_def apply_updates_def)
  show ?thesis
    using n u update_device_frame [of provisioned_store example_client example_env example_request]
    by simp
qed

end
